theory Spec2Isabelle
  imports Main
begin

section \<open>Python values and exceptions\<close>

text \<open>
  The values that \<^verbatim>\<open>json.load\<close> and the metadata dictionaries hold. A dictionary is an
  association list in insertion order (the order \<^verbatim>\<open>dict.items()\<close> iterates in); a float
  is kept as the decimal literal \<open>m * 10 ^ e\<close> it was read from, which is all the loader
  looks at (its truth value) besides its printed form.
\<close>

datatype pyval =
    PNone
  | PBool bool
  | PInt int
  | PFloat int int
  | PStr string
  | PList "pyval list"
  | PDict "(string \<times> pyval) list"

type_synonym pydict = "(string \<times> pyval) list"

text \<open>The exceptions the code raises or lets through, each with its message.\<close>

datatype error =
    FileNotFoundError string
  | ValueError string
  | TypeError string
  | KeyError string
  | IndexError string
  | AttributeError string
  | ImportError string
  | UnicodeDecodeError string
  | Exception string
  | LibraryError string

fun err_msg :: "error \<Rightarrow> string" where
  "err_msg (FileNotFoundError m) = m"
| "err_msg (ValueError m) = m"
| "err_msg (TypeError m) = m"
| "err_msg (KeyError m) = m"
| "err_msg (IndexError m) = m"
| "err_msg (AttributeError m) = m"
| "err_msg (ImportError m) = m"
| "err_msg (UnicodeDecodeError m) = m"
| "err_msg (Exception m) = m"
| "err_msg (LibraryError m) = m"

text \<open>Truth value of a Python object, as \<^verbatim>\<open>or\<close> and \<^verbatim>\<open>not\<close> test it.\<close>

fun truthy :: "pyval \<Rightarrow> bool" where
  "truthy PNone = False"
| "truthy (PBool b) = b"
| "truthy (PInt i) = (i \<noteq> 0)"
| "truthy (PFloat m e) = (m \<noteq> 0)"
| "truthy (PStr s) = (s \<noteq> [])"
| "truthy (PList xs) = (xs \<noteq> [])"
| "truthy (PDict kvs) = (kvs \<noteq> [])"

text \<open>\<^verbatim>\<open>len(x)\<close>: defined on strings, lists and dictionaries, a TypeError elsewhere.\<close>

fun py_len :: "pyval \<Rightarrow> error + nat" where
  "py_len (PStr s) = Inr (length s)"
| "py_len (PList xs) = Inr (length xs)"
| "py_len (PDict kvs) = Inr (length kvs)"
| "py_len v = Inl (TypeError ''object has no len()'')"

text \<open>Decimal digits of a number, as an f-string or \<^verbatim>\<open>str\<close> prints it.\<close>

definition digit_char :: "nat \<Rightarrow> char" where
  "digit_char d = ''0123456789'' ! d"

fun str_of_nat :: "nat \<Rightarrow> string" where
  "str_of_nat n =
     (if n < 10 then [digit_char n] else str_of_nat (n div 10) @ [digit_char (n mod 10)])"

declare str_of_nat.simps [simp del]

definition str_of_int :: "int \<Rightarrow> string" where
  "str_of_int i = (if i < 0 then CHR ''-'' # str_of_nat (nat (- i)) else str_of_nat (nat i))"

text \<open>
  \<^verbatim>\<open>str(x)\<close>. The printed form of a float, a list or a dictionary is Python's \<^verbatim>\<open>repr\<close>, which
  is the interpreter's and not this program's: it is the parameter \<open>repr\<close>.
\<close>

fun py_str :: "(pyval \<Rightarrow> string) \<Rightarrow> pyval \<Rightarrow> string" where
  "py_str repr PNone = ''None''"
| "py_str repr (PBool b) = (if b then ''True'' else ''False'')"
| "py_str repr (PInt i) = str_of_int i"
| "py_str repr (PStr s) = s"
| "py_str repr v = repr v"

text \<open>\<^verbatim>\<open>d.get(k)\<close> (None when the key is absent) and \<^verbatim>\<open>d.get(k, default)\<close>.\<close>

definition dict_get :: "pydict \<Rightarrow> string \<Rightarrow> pyval" where
  "dict_get d k = (case map_of d k of None \<Rightarrow> PNone | Some v \<Rightarrow> v)"

definition dict_get_default :: "pydict \<Rightarrow> string \<Rightarrow> pyval \<Rightarrow> pyval" where
  "dict_get_default d k dflt = (case map_of d k of None \<Rightarrow> dflt | Some v \<Rightarrow> v)"

section \<open>Paths and the file system\<close>

text \<open>
  \<^verbatim>\<open>Path.name\<close> is the last component of the path, \<^verbatim>\<open>Path.suffix\<close> the part of the name
  from its last dot on, empty when the dot is the first or the last character of the name.
  \<^verbatim>\<open>str.lower\<close> is modelled on the ASCII letters.
\<close>

definition path_name :: "string \<Rightarrow> string" where
  "path_name p = rev (takeWhile (\<lambda>c. c \<noteq> CHR ''/'') (rev p))"

definition path_suffix :: "string \<Rightarrow> string" where
  "path_suffix p =
     (let name = path_name p;
          ext = rev (takeWhile (\<lambda>c. c \<noteq> CHR ''.'') (rev name))
      in if CHR ''.'' \<notin> set name \<or> ext = [] \<or> Suc (length ext) = length name then []
         else CHR ''.'' # ext)"

definition lower_char :: "char \<Rightarrow> char" where
  "lower_char c =
     (case map_of (zip ''ABCDEFGHIJKLMNOPQRSTUVWXYZ'' ''abcdefghijklmnopqrstuvwxyz'') c of
        None \<Rightarrow> c
      | Some l \<Rightarrow> l)"

definition lower :: "string \<Rightarrow> string" where
  "lower s = map lower_char s"

text \<open>
  What the loader can observe of one path: whether it is a regular file, its size, the
  children \<^verbatim>\<open>iterdir\<close> lists, and what each reader the loader may open it with returns
  or raises (\<^verbatim>\<open>open(..., encoding=...).read()\<close>, PyPDF2's pages, python-docx's paragraphs,
  \<^verbatim>\<open>json.load\<close>). A path that is not in the file system does not exist.
\<close>

record fs_entry =
  is_file :: bool
  st_size :: nat
  iterdir :: "error + string list"
  read_utf8 :: "error + string"
  read_latin1 :: "error + string"
  pdf_pages :: "error + string list"
  docx_paragraphs :: "error + string list"
  json_load :: "error + pyval"

record loader_env =
  fs :: "(string \<times> fs_entry) list"
  have_pypdf2 :: bool
  have_docx :: bool
  repr :: "pyval \<Rightarrow> string"

definition path_exists :: "loader_env \<Rightarrow> string \<Rightarrow> bool" where
  "path_exists env p = (map_of (fs env) p \<noteq> None)"

definition path_is_file :: "loader_env \<Rightarrow> string \<Rightarrow> bool" where
  "path_is_file env p = (case map_of (fs env) p of None \<Rightarrow> False | Some f \<Rightarrow> is_file f)"

section \<open>Document loader\<close>

record document =
  content :: pyval
  metadata :: pydict

datatype loaded = Single document | Many "document list"

definition supported_formats :: "string list" where
  "supported_formats = [''.txt'', ''.pdf'', ''.docx'', ''.json'']"

text \<open>\<^verbatim>\<open>str.strip()\<close>: whitespace removed at both ends.\<close>

definition is_space :: "char \<Rightarrow> bool" where
  "is_space c = (c \<in> set [CHR '' '', CHR 0x09, CHR 0x0A, CHR 0x0B, CHR 0x0C, CHR 0x0D])"

definition strip :: "string \<Rightarrow> string" where
  "strip s = rev (dropWhile is_space (rev (dropWhile is_space s)))"

definition load_txt :: "fs_entry \<Rightarrow> error + string" where
  "load_txt f =
     (case read_utf8 f of
        Inl (UnicodeDecodeError m) \<Rightarrow> read_latin1 f
      | r \<Rightarrow> r)"

definition load_pdf :: "loader_env \<Rightarrow> fs_entry \<Rightarrow> error + string" where
  "load_pdf env f =
     (if \<not> have_pypdf2 env then Inl (ImportError ''PyPDF2 is required for PDF support. Install with: pip install PyPDF2'')
      else case pdf_pages f of
             Inl e \<Rightarrow> Inl (Exception (''Error reading PDF file: '' @ err_msg e))
           | Inr pages \<Rightarrow> Inr (strip (concat (map (\<lambda>t. t @ [CHR 0x0A]) pages))))"

definition load_docx :: "loader_env \<Rightarrow> fs_entry \<Rightarrow> error + string" where
  "load_docx env f =
     (if \<not> have_docx env then Inl (ImportError ''python-docx is required for DOCX support. Install with: pip install python-docx'')
      else case docx_paragraphs f of
             Inl e \<Rightarrow> Inl (Exception (''Error reading DOCX file: '' @ err_msg e))
           | Inr paras \<Rightarrow> Inr (strip (concat (map (\<lambda>t. t @ [CHR 0x0A]) paras))))"

text \<open>The metadata every document gets, before the JSON tag is added.\<close>

definition base_metadata :: "string \<Rightarrow> fs_entry \<Rightarrow> nat \<Rightarrow> pydict" where
  "base_metadata p f n =
     [(''filename'', PStr (path_name p)),
      (''file_path'', PStr p),
      (''file_size'', PInt (int (st_size f))),
      (''file_type'', PStr (lower (path_suffix p))),
      (''character_count'', PInt (int n))]"

text \<open>
  The content of one JSON element:
  \<^verbatim>\<open>doc.get('content') or doc.get('publication_description') or str(doc)\<close> for a dictionary,
  \<^verbatim>\<open>str(doc)\<close> for anything else.
\<close>

definition json_content :: "(pyval \<Rightarrow> string) \<Rightarrow> pyval \<Rightarrow> pyval" where
  "json_content r doc =
     (case doc of
        PDict d \<Rightarrow>
          (if truthy (dict_get d ''content'') then dict_get d ''content''
           else if truthy (dict_get d ''publication_description'')
           then dict_get d ''publication_description''
           else PStr (py_str r doc))
      | _ \<Rightarrow> PStr (py_str r doc))"

text \<open>
  One element's document; \<open>tag\<close> is its \<^verbatim>\<open>json_index\<close> or \<^verbatim>\<open>json_key\<close> entry.
  \<^verbatim>\<open>len(content)\<close> raises when the content taken from the element has no length.
\<close>

definition json_doc :: "loader_env \<Rightarrow> string \<Rightarrow> fs_entry \<Rightarrow> (string \<times> pyval) \<Rightarrow> pyval \<Rightarrow> error + document" where
  "json_doc env p f tag doc =
     (let c0 = json_content (repr env) doc;
          c = (if c0 = PNone then PStr [] else c0) in
      case py_len c of
        Inl e \<Rightarrow> Inl e
      | Inr n \<Rightarrow> Inr \<lparr>content = c, metadata = base_metadata p f n @ [tag]\<rparr>)"

text \<open>The two \<^verbatim>\<open>for\<close> loops of \<^verbatim>\<open>_load_json\<close>: the first failure ends the load.\<close>

fun json_list_docs :: "loader_env \<Rightarrow> string \<Rightarrow> fs_entry \<Rightarrow> nat \<Rightarrow> pyval list \<Rightarrow> error + document list" where
  "json_list_docs env p f i [] = Inr []"
| "json_list_docs env p f i (doc # rest) =
     (case json_doc env p f (''json_index'', PInt (int i)) doc of
        Inl e \<Rightarrow> Inl e
      | Inr d \<Rightarrow>
          (case json_list_docs env p f (Suc i) rest of
             Inl e \<Rightarrow> Inl e
           | Inr ds \<Rightarrow> Inr (d # ds)))"

fun json_dict_docs :: "loader_env \<Rightarrow> string \<Rightarrow> fs_entry \<Rightarrow> (string \<times> pyval) list \<Rightarrow> error + document list" where
  "json_dict_docs env p f [] = Inr []"
| "json_dict_docs env p f ((key, doc) # rest) =
     (case json_doc env p f (''json_key'', PStr key) doc of
        Inl e \<Rightarrow> Inl e
      | Inr d \<Rightarrow>
          (case json_dict_docs env p f rest of
             Inl e \<Rightarrow> Inl e
           | Inr ds \<Rightarrow> Inr (d # ds)))"

definition load_json :: "loader_env \<Rightarrow> string \<Rightarrow> fs_entry \<Rightarrow> error + document list" where
  "load_json env p f =
     (case json_load f of
        Inl e \<Rightarrow> Inl e
      | Inr data \<Rightarrow>
          (case data of
             PList xs \<Rightarrow> json_list_docs env p f 0 xs
           | PDict kvs \<Rightarrow> json_dict_docs env p f kvs
           | _ \<Rightarrow>
               (let c = (if data \<noteq> PNone then py_str (repr env) data else [])
                in Inr [\<lparr>content = PStr c, metadata = base_metadata p f (length c)\<rparr>])))"

definition single_doc :: "string \<Rightarrow> fs_entry \<Rightarrow> string \<Rightarrow> loaded" where
  "single_doc p f text_content =
     Single \<lparr>content = PStr text_content, metadata = base_metadata p f (length text_content)\<rparr>"

definition load_document :: "loader_env \<Rightarrow> string \<Rightarrow> error + loaded" where
  "load_document env p =
     (case map_of (fs env) p of
        None \<Rightarrow> Inl (FileNotFoundError (''File not found: '' @ p))
      | Some f \<Rightarrow>
          (let sfx = lower (path_suffix p) in
           if sfx \<notin> set supported_formats
           then Inl (ValueError (''Unsupported file format: '' @ path_suffix p))
           else if sfx = ''.txt'' then map_sum id (single_doc p f) (load_txt f)
           else if sfx = ''.pdf'' then map_sum id (single_doc p f) (load_pdf env f)
           else if sfx = ''.docx'' then map_sum id (single_doc p f) (load_docx env f)
           else if sfx = ''.json'' then map_sum id Many (load_json env p f)
           else Inr (single_doc p f [])))"

text \<open>
  \<^verbatim>\<open>load_directory\<close>: the loop over \<^verbatim>\<open>iterdir()\<close>, carrying the documents gathered so far
  and the lines written with \<^verbatim>\<open>logger.error\<close>.
\<close>

definition eligible :: "loader_env \<Rightarrow> string \<Rightarrow> bool" where
  "eligible env p = (path_is_file env p \<and> lower (path_suffix p) \<in> set supported_formats)"

fun load_files :: "loader_env \<Rightarrow> string list \<Rightarrow> document list \<times> string list \<Rightarrow> document list \<times> string list" where
  "load_files env [] acc = acc"
| "load_files env (p # ps) (documents, errlog) =
     (if eligible env p then
        (case load_document env p of
           Inr (Many ds) \<Rightarrow> load_files env ps (documents @ ds, errlog)
         | Inr (Single d) \<Rightarrow> load_files env ps (documents @ [d], errlog)
         | Inl e \<Rightarrow>
             load_files env ps
               (documents, errlog @ [''Error loading '' @ p @ '': '' @ err_msg e]))
      else load_files env ps (documents, errlog))"

definition load_directory :: "loader_env \<Rightarrow> string \<Rightarrow> error + document list \<times> string list" where
  "load_directory env dir =
     (case map_of (fs env) dir of
        None \<Rightarrow> Inl (FileNotFoundError (''Directory not found: '' @ dir))
      | Some d \<Rightarrow>
          (case iterdir d of
             Inl e \<Rightarrow> Inl e
           | Inr children \<Rightarrow> Inr (load_files env children ([], []))))"

text \<open>
  What the description of \<^verbatim>\<open>load_directory\<close> says of one listed path: the documents it
  contributes (a JSON file's list flattened, nothing when the load fails) and the line
  logged for it (only when the load fails).
\<close>

definition spec_docs_of :: "loader_env \<Rightarrow> string \<Rightarrow> document list" where
  "spec_docs_of env p =
     (case load_document env p of
        Inl e \<Rightarrow> []
      | Inr (Single d) \<Rightarrow> [d]
      | Inr (Many ds) \<Rightarrow> ds)"

definition spec_errors_of :: "loader_env \<Rightarrow> string \<Rightarrow> string list" where
  "spec_errors_of env p =
     (case load_document env p of
        Inl e \<Rightarrow> [''Error loading '' @ p @ '': '' @ err_msg e]
      | Inr l \<Rightarrow> [])"

text \<open>Whether \<^verbatim>\<open>len\<close> is defined on a value.\<close>

definition has_len :: "pyval \<Rightarrow> bool" where
  "has_len v = (case py_len v of Inl e \<Rightarrow> False | Inr n \<Rightarrow> True)"

definition the_len :: "pyval \<Rightarrow> nat" where
  "the_len v = (case py_len v of Inl e \<Rightarrow> 0 | Inr n \<Rightarrow> n)"

text \<open>A small file system for the concrete runs below.\<close>

definition plain_file :: fs_entry where
  "plain_file =
     \<lparr>is_file = True, st_size = 3,
      iterdir = Inl (LibraryError ''Not a directory''),
      read_utf8 = Inr ''x y'',
      read_latin1 = Inr ''x y'',
      pdf_pages = Inl (LibraryError ''EOF marker not found''),
      docx_paragraphs = Inl (LibraryError ''File is not a zip file''),
      json_load = Inl (LibraryError ''Expecting value'')\<rparr>"

definition json_file :: "pyval \<Rightarrow> fs_entry" where
  "json_file v = plain_file\<lparr>json_load := Inr v\<rparr>"

definition folder :: "string list \<Rightarrow> fs_entry" where
  "folder children =
     \<lparr>is_file = False, st_size = 0,
      iterdir = Inr children,
      read_utf8 = Inl (LibraryError ''Is a directory''),
      read_latin1 = Inl (LibraryError ''Is a directory''),
      pdf_pages = Inl (LibraryError ''Is a directory''),
      docx_paragraphs = Inl (LibraryError ''Is a directory''),
      json_load = Inl (LibraryError ''Is a directory'')\<rparr>"

definition const_repr :: "pyval \<Rightarrow> string" where
  "const_repr v = ''<repr>''"

definition demo_env :: loader_env where
  "demo_env =
     \<lparr>fs =
        [(''d'', folder [''d/a.txt'', ''d/b.pdf'', ''d/c.json'', ''d/e.xyz'', ''d/s'']),
         (''d/a.txt'', plain_file),
         (''d/b.pdf'', plain_file),
         (''d/c.json'', json_file (PList [PStr ''u'', PDict [(''content'', PStr ''v'')]])),
         (''d/e.xyz'', plain_file),
         (''d/s'', folder [''d/s/f.txt'']),
         (''d/s/f.txt'', plain_file)],
      have_pypdf2 = True, have_docx = True, repr = const_repr\<rparr>"

text \<open>A file system that holds one file, \<^verbatim>\<open>j.json\<close>, with the given JSON value in it.\<close>

definition json_env :: "pyval \<Rightarrow> loader_env" where
  "json_env v =
     \<lparr>fs = [(''j.json'', json_file v)],
      have_pypdf2 = True, have_docx = True, repr = const_repr\<rparr>"

section \<open>External services\<close>

text \<open>
  Everything the pipeline reaches outside this repository: the text splitter, the
  embedding model, the language model, \<^verbatim>\<open>uuid.uuid4\<close> and the three vector-database client
  libraries. One \<open>call\<close> is one invocation of such a library; the services answer it with
  a reply or an exception and may change their own state (the world). Embedding vectors
  and scores are lists of numbers that the code only passes on.
\<close>

type_synonym embedding = "pyval list"

datatype point_id = IntId int | StrId string

record point =
  point_id :: point_id
  vector :: embedding
  payload :: pydict

datatype distance = COSINE | EUCLID | DOT

datatype call =
    MakeSplitter nat nat "string list"
  | MakeEmbeddings string
  | MakeLlm string pyval nat string
  | SplitText pyval
  | EmbedQuery string
  | Uuid4
  | LlmInvoke string string
  | ChromaGetOrCreate string string string
  | ChromaAdd string "embedding list" "string list" "pydict list" "string list"
  | ChromaQuery string "embedding list" nat
  | ChromaCount string
  | ChromaDelete string
  | QdrantGetCollections
  | QdrantCreateCollection string nat distance
  | QdrantUpsert string "point list"
  | QdrantSearch string embedding nat
  | QdrantGetCollection string
  | QdrantCount string
  | QdrantDeleteCollection string
  | WeaviateSchemaExists string
  | WeaviateCreateClass string
  | WeaviateBatchAdd string "(string \<times> pydict \<times> embedding) list"
  | WeaviateGet string embedding nat
  | WeaviateSchemaGet string
  | WeaviateAggregate string
  | WeaviateDeleteClass string

text \<open>The result dictionary of a query, in ChromaDB's shape; a field is None or a list of lists.\<close>

record results =
  documents :: "pyval list list option"
  metadatas :: "pydict list list option"
  distances :: "pyval list list option"
  ids :: "string list list option"

record hit =
  hit_id :: point_id
  hit_score :: pyval
  hit_payload :: pydict

datatype reply =
    RNone
  | RStrings "string list"
  | RString string
  | RVector embedding
  | RBool bool
  | RCount nat
  | RCollection nat string
  | RContent pyval
  | RResults results
  | RHits "hit list"
  | RItems "pydict list option"
  | RAggregate "nat option"

type_synonym 'w services = "call \<Rightarrow> 'w \<Rightarrow> (error + reply) \<times> 'w"

text \<open>The state threaded through the code: the world, and the calls made so far.\<close>

record 'w state =
  world :: 'w
  calls :: "call list"

definition invoke :: "'w services \<Rightarrow> call \<Rightarrow> 'w state \<Rightarrow> (error + reply) \<times> 'w state" where
  "invoke X c st =
     (case X c (world st) of (r, w') \<Rightarrow> (r, \<lparr>world = w', calls = calls st @ [c]\<rparr>))"

text \<open>A reply of another shape than the caller reads is a failure inside the library.\<close>

definition bad_reply :: error where
  "bad_reply = LibraryError ''unexpected reply''"

fun as_none :: "error + reply \<Rightarrow> error + unit" where
  "as_none (Inl e) = Inl e"
| "as_none (Inr r) = Inr ()"

fun as_strings :: "error + reply \<Rightarrow> error + string list" where
  "as_strings (Inl e) = Inl e"
| "as_strings (Inr (RStrings xs)) = Inr xs"
| "as_strings (Inr r) = Inl bad_reply"

fun as_string :: "error + reply \<Rightarrow> error + string" where
  "as_string (Inl e) = Inl e"
| "as_string (Inr (RString x)) = Inr x"
| "as_string (Inr r) = Inl bad_reply"

fun as_vector :: "error + reply \<Rightarrow> error + embedding" where
  "as_vector (Inl e) = Inl e"
| "as_vector (Inr (RVector x)) = Inr x"
| "as_vector (Inr r) = Inl bad_reply"

fun as_bool :: "error + reply \<Rightarrow> error + bool" where
  "as_bool (Inl e) = Inl e"
| "as_bool (Inr (RBool x)) = Inr x"
| "as_bool (Inr r) = Inl bad_reply"

fun as_count :: "error + reply \<Rightarrow> error + nat" where
  "as_count (Inl e) = Inl e"
| "as_count (Inr (RCount x)) = Inr x"
| "as_count (Inr r) = Inl bad_reply"

fun as_collection :: "error + reply \<Rightarrow> error + nat \<times> string" where
  "as_collection (Inl e) = Inl e"
| "as_collection (Inr (RCollection n d)) = Inr (n, d)"
| "as_collection (Inr r) = Inl bad_reply"

fun as_content :: "error + reply \<Rightarrow> error + pyval" where
  "as_content (Inl e) = Inl e"
| "as_content (Inr (RContent x)) = Inr x"
| "as_content (Inr r) = Inl bad_reply"

fun as_results :: "error + reply \<Rightarrow> error + results" where
  "as_results (Inl e) = Inl e"
| "as_results (Inr (RResults x)) = Inr x"
| "as_results (Inr r) = Inl bad_reply"

fun as_hits :: "error + reply \<Rightarrow> error + hit list" where
  "as_hits (Inl e) = Inl e"
| "as_hits (Inr (RHits x)) = Inr x"
| "as_hits (Inr r) = Inl bad_reply"

fun as_items :: "error + reply \<Rightarrow> error + pydict list option" where
  "as_items (Inl e) = Inl e"
| "as_items (Inr (RItems x)) = Inr x"
| "as_items (Inr r) = Inl bad_reply"

fun as_aggregate :: "error + reply \<Rightarrow> error + nat option" where
  "as_aggregate (Inl e) = Inl e"
| "as_aggregate (Inr (RAggregate x)) = Inr x"
| "as_aggregate (Inr r) = Inl bad_reply"

text \<open>A call whose reply is read with \<open>rd\<close>.\<close>

definition ask :: "'w services \<Rightarrow> (error + reply \<Rightarrow> error + 'a) \<Rightarrow> call \<Rightarrow> 'w state \<Rightarrow> (error + 'a) \<times> 'w state" where
  "ask X rd c st = (case invoke X c st of (r, st') \<Rightarrow> (rd r, st'))"

section \<open>Configuration\<close>

text \<open>
  The sections of the YAML file the code reads, each key present or absent;
  \<^verbatim>\<open>config.get(key, default)\<close> is \<open>opt\<close>.
\<close>

record vdb_config =
  provider :: "string option"
  path :: "string option"
  collection_name :: "string option"
  class_name :: "string option"
  distance_metric :: "string option"
  vector_size :: "nat option"

record config =
  vector_db_config :: vdb_config
  chunk_size :: "nat option"
  chunk_overlap :: "nat option"
  separators :: "string list option"
  embeddings_model :: "string option"
  llm_model :: "string option"
  llm_temperature :: "pyval option"
  llm_max_tokens :: "nat option"
  max_results :: "nat option"

definition opt :: "'a option \<Rightarrow> 'a \<Rightarrow> 'a" where
  "opt v dflt = (case v of None \<Rightarrow> dflt | Some x \<Rightarrow> x)"

section \<open>Vector database adapters\<close>

text \<open>The adapter object: its provider and the names it keeps from its configuration.\<close>

datatype vector_db =
    ChromaDBVectorDB string
  | WeaviateVectorDB string
  | QdrantVectorDB string

text \<open>The preview of a text: \<^verbatim>\<open>t[:200] + "..." if len(t) > 200 else t\<close>.\<close>

definition preview :: "string \<Rightarrow> string" where
  "preview t = (if length t > 200 then take 200 t @ ''...'' else t)"

text \<open>The payload the Qdrant and Weaviate adapters build for the \<open>i\<close>-th record.\<close>

definition native_metadata :: "nat \<Rightarrow> string \<Rightarrow> pydict \<Rightarrow> pydict" where
  "native_metadata i document md =
     [(''content'', PStr document),
      (''filename'', dict_get_default md ''filename'' (PStr [])),
      (''file_path'', dict_get_default md ''file_path'' (PStr [])),
      (''file_type'', dict_get_default md ''file_type'' (PStr [])),
      (''chunk_id'', dict_get_default md ''chunk_id'' (PInt (int i))),
      (''chunk_text'', dict_get_default md ''chunk_text'' (PStr (preview document))),
      (''file_size'', dict_get_default md ''file_size'' (PInt 0)),
      (''character_count'', dict_get_default md ''character_count'' (PInt (int (length document))))]"

subsection \<open>ChromaDB\<close>

definition chroma_init :: "'w services \<Rightarrow> vdb_config \<Rightarrow> 'w state \<Rightarrow> (error + vector_db) \<times> 'w state" where
  "chroma_init X cfg st =
     (let name = opt (collection_name cfg) ''documents'' in
      case ask X as_none
             (ChromaGetOrCreate (opt (path cfg) ''./data/vectors'') name
                (opt (distance_metric cfg) ''cosine'')) st of
        (Inl e, st1) \<Rightarrow> (Inl e, st1)
      | (Inr u, st1) \<Rightarrow> (Inr (ChromaDBVectorDB name), st1))"

definition chroma_add_documents :: "'w services \<Rightarrow> string \<Rightarrow> embedding list \<Rightarrow> string list \<Rightarrow> pydict list \<Rightarrow> string list \<Rightarrow> 'w state \<Rightarrow> (error + unit) \<times> 'w state" where
  "chroma_add_documents X name embeddings docs mds idents st =
     ask X as_none (ChromaAdd name embeddings docs mds idents) st"

text \<open>
  The debug line of the query formats \<^verbatim>\<open>len(results.get('documents', [[]])[0])\<close> inside
  the \<^verbatim>\<open>try\<close>, so a result without a first document list raises there.
\<close>

definition chroma_query :: "'w services \<Rightarrow> string \<Rightarrow> embedding list \<Rightarrow> nat \<Rightarrow> 'w state \<Rightarrow> (error + results) \<times> 'w state" where
  "chroma_query X name query_embeddings n_results st =
     (case ask X as_results (ChromaQuery name query_embeddings n_results) st of
        (Inl e, st1) \<Rightarrow> (Inl e, st1)
      | (Inr res, st1) \<Rightarrow>
          (case documents res of
             None \<Rightarrow> (Inl (TypeError ''NoneType object is not subscriptable''), st1)
           | Some [] \<Rightarrow> (Inl (IndexError ''list index out of range''), st1)
           | Some (d # ds) \<Rightarrow> (Inr res, st1)))"

record collection_info =
  ci_name :: string
  ci_count :: nat
  ci_provider :: string
  ci_vector_size :: "nat option"
  ci_distance_metric :: "string option"

definition chroma_get_collection_info :: "'w services \<Rightarrow> string \<Rightarrow> 'w state \<Rightarrow> collection_info \<times> 'w state" where
  "chroma_get_collection_info X name st =
     (case ask X as_count (ChromaCount name) st of
        (Inl e, st1) \<Rightarrow>
          (\<lparr>ci_name = ''unknown'', ci_count = 0, ci_provider = ''chromadb'',
            ci_vector_size = None, ci_distance_metric = None\<rparr>, st1)
      | (Inr n, st1) \<Rightarrow>
          (\<lparr>ci_name = name, ci_count = n, ci_provider = ''chromadb'',
            ci_vector_size = None, ci_distance_metric = None\<rparr>, st1))"

definition chroma_delete_collection :: "'w services \<Rightarrow> string \<Rightarrow> 'w state \<Rightarrow> (error + unit) \<times> 'w state" where
  "chroma_delete_collection X name st = ask X as_none (ChromaDelete name) st"

subsection \<open>Qdrant\<close>

definition distance_mapping :: "string \<Rightarrow> distance" where
  "distance_mapping m =
     (if m = ''cosine'' then COSINE else if m = ''euclidean'' then EUCLID
      else if m = ''dot'' then DOT else COSINE)"

definition qdrant_create_collection :: "'w services \<Rightarrow> string \<Rightarrow> nat \<Rightarrow> string \<Rightarrow> 'w state \<Rightarrow> (error + unit) \<times> 'w state" where
  "qdrant_create_collection X name vsize metric st =
     (case ask X as_strings QdrantGetCollections st of
        (Inl e, st1) \<Rightarrow> (Inl e, st1)
      | (Inr names, st1) \<Rightarrow>
          if name \<in> set names then (Inr (), st1)
          else ask X as_none (QdrantCreateCollection name vsize (distance_mapping metric)) st1)"

definition qdrant_init :: "'w services \<Rightarrow> vdb_config \<Rightarrow> 'w state \<Rightarrow> (error + vector_db) \<times> 'w state" where
  "qdrant_init X cfg st =
     (let name = opt (collection_name cfg) ''documents'' in
      case qdrant_create_collection X name (opt (vector_size cfg) 384)
             (opt (distance_metric cfg) ''cosine'') st of
        (Inl e, st1) \<Rightarrow> (Inl e, st1)
      | (Inr u, st1) \<Rightarrow> (Inr (QdrantVectorDB name), st1))"

text \<open>
  A character of a string is a code point below 256. On these, \<^verbatim>\<open>str.isdigit\<close> is true of
  the ASCII digits and of the superscripts two, three and one (U+00B2, U+00B3, U+00B9).
  \<^verbatim>\<open>int(s)\<close>, for a string \<open>s\<close> on which \<^verbatim>\<open>isdigit\<close> holds, is the number \<open>s\<close> spells when
  all its characters are ASCII digits and there are at most 4300 of them (the
  interpreter's limit for converting a string to a number); otherwise it raises
  ValueError.
\<close>

definition is_decimal :: "string \<Rightarrow> bool" where
  "is_decimal s = (\<forall>c\<in>set s. c \<in> set ''0123456789'')"

definition isdigit :: "string \<Rightarrow> bool" where
  "isdigit s =
     (s \<noteq> [] \<and> (\<forall>c\<in>set s. c \<in> set ''0123456789'' \<or> c \<in> set [CHR 0xB2, CHR 0xB3, CHR 0xB9]))"

definition digit_value :: "char \<Rightarrow> nat" where
  "digit_value c = length (takeWhile (\<lambda>d. d \<noteq> c) ''0123456789'')"

definition int_of_digits :: "string \<Rightarrow> int" where
  "int_of_digits s = int (foldl (\<lambda>n c. 10 * n + digit_value c) 0 s)"

definition py_int_digits :: "string \<Rightarrow> error + int" where
  "py_int_digits s =
     (if is_decimal s \<and> length s \<le> 4300 then Inr (int_of_digits s)
      else Inl (ValueError ''invalid literal for int() with base 10''))"

text \<open>
  The point ID of one record: \<^verbatim>\<open>int(doc_id)\<close> when the logical ID is not empty and
  \<^verbatim>\<open>isdigit\<close> holds of it, a fresh \<^verbatim>\<open>uuid4\<close> otherwise.
\<close>

definition qdrant_point_id :: "'w services \<Rightarrow> string \<Rightarrow> 'w state \<Rightarrow> (error + point_id) \<times> 'w state" where
  "qdrant_point_id X doc_id st =
     (if doc_id \<noteq> [] \<and> isdigit doc_id then
        (case py_int_digits doc_id of
           Inl e \<Rightarrow> (Inl e, st)
         | Inr n \<Rightarrow> (Inr (IntId n), st))
      else case ask X as_string Uuid4 st of
             (Inl e, st1) \<Rightarrow> (Inl e, st1)
           | (Inr u, st1) \<Rightarrow> (Inr (StrId u), st1))"

text \<open>The loop over \<^verbatim>\<open>enumerate(zip(embeddings, documents, metadatas, ids))\<close>.\<close>

fun qdrant_points :: "'w services \<Rightarrow> nat \<Rightarrow> (embedding \<times> string \<times> pydict \<times> string) list \<Rightarrow> 'w state \<Rightarrow> (error + point list) \<times> 'w state" where
  "qdrant_points X i [] st = (Inr [], st)"
| "qdrant_points X i ((e, document, md, doc_id) # rest) st =
     (case qdrant_point_id X doc_id st of
        (Inl err, st1) \<Rightarrow> (Inl err, st1)
      | (Inr pid, st1) \<Rightarrow>
          (case qdrant_points X (Suc i) rest st1 of
             (Inl err, st2) \<Rightarrow> (Inl err, st2)
           | (Inr ps, st2) \<Rightarrow>
               (Inr (\<lparr>point_id = pid, vector = e,
                       payload = native_metadata i document md\<rparr> # ps), st2)))"

definition qdrant_add_documents :: "'w services \<Rightarrow> string \<Rightarrow> embedding list \<Rightarrow> string list \<Rightarrow> pydict list \<Rightarrow> string list \<Rightarrow> 'w state \<Rightarrow> (error + unit) \<times> 'w state" where
  "qdrant_add_documents X name embeddings docs mds idents st =
     (case qdrant_points X 0 (zip embeddings (zip docs (zip mds idents))) st of
        (Inl e, st1) \<Rightarrow> (Inl e, st1)
      | (Inr points, st1) \<Rightarrow> ask X as_none (QdrantUpsert name points) st1)"

definition str_of_point_id :: "point_id \<Rightarrow> string" where
  "str_of_point_id i = (case i of IntId n \<Rightarrow> str_of_int n | StrId u \<Rightarrow> u)"

text \<open>The metadata both adapters rebuild from a stored payload.\<close>

definition result_metadata :: "pydict \<Rightarrow> pydict" where
  "result_metadata pl =
     [(''filename'', dict_get_default pl ''filename'' (PStr [])),
      (''file_path'', dict_get_default pl ''file_path'' (PStr [])),
      (''file_type'', dict_get_default pl ''file_type'' (PStr [])),
      (''chunk_id'', dict_get_default pl ''chunk_id'' (PInt 0)),
      (''chunk_text'', dict_get_default pl ''chunk_text'' (PStr [])),
      (''file_size'', dict_get_default pl ''file_size'' (PInt 0)),
      (''character_count'', dict_get_default pl ''character_count'' (PInt 0))]"

definition qdrant_query :: "'w services \<Rightarrow> string \<Rightarrow> embedding list \<Rightarrow> nat \<Rightarrow> 'w state \<Rightarrow> (error + results) \<times> 'w state" where
  "qdrant_query X name query_embeddings n_results st =
     (case query_embeddings of
        [] \<Rightarrow> (Inl (IndexError ''list index out of range''), st)
      | q # qs \<Rightarrow>
          (case ask X as_hits (QdrantSearch name q n_results) st of
             (Inl e, st1) \<Rightarrow> (Inl e, st1)
           | (Inr hits, st1) \<Rightarrow>
               (Inr \<lparr>documents = Some [map (\<lambda>h. dict_get_default (hit_payload h) ''content'' (PStr [])) hits],
                     metadatas = Some [map (\<lambda>h. result_metadata (hit_payload h)) hits],
                     distances = Some [map hit_score hits],
                     ids = Some [map (\<lambda>h. str_of_point_id (hit_id h)) hits]\<rparr>, st1)))"

definition qdrant_get_collection_info :: "'w services \<Rightarrow> string \<Rightarrow> 'w state \<Rightarrow> collection_info \<times> 'w state" where
  "qdrant_get_collection_info X name st =
     (let failed = \<lparr>ci_name = name, ci_count = 0, ci_provider = ''qdrant'',
                     ci_vector_size = None, ci_distance_metric = None\<rparr> in
      case ask X as_collection (QdrantGetCollection name) st of
        (Inl e, st1) \<Rightarrow> (failed, st1)
      | (Inr (vsize, dist), st1) \<Rightarrow>
          (case ask X as_count (QdrantCount name) st1 of
             (Inl e, st2) \<Rightarrow> (failed, st2)
           | (Inr n, st2) \<Rightarrow>
               (\<lparr>ci_name = name, ci_count = n, ci_provider = ''qdrant'',
                 ci_vector_size = Some vsize, ci_distance_metric = Some (lower dist)\<rparr>, st2)))"

definition qdrant_delete_collection :: "'w services \<Rightarrow> string \<Rightarrow> 'w state \<Rightarrow> (error + unit) \<times> 'w state" where
  "qdrant_delete_collection X name st = ask X as_none (QdrantDeleteCollection name) st"

subsection \<open>Weaviate\<close>

definition weaviate_create_schema :: "'w services \<Rightarrow> string \<Rightarrow> 'w state \<Rightarrow> (error + unit) \<times> 'w state" where
  "weaviate_create_schema X cls st =
     (case ask X as_bool (WeaviateSchemaExists cls) st of
        (Inl e, st1) \<Rightarrow> (Inl e, st1)
      | (Inr present, st1) \<Rightarrow>
          if present then (Inr (), st1) else ask X as_none (WeaviateCreateClass cls) st1)"

definition weaviate_init :: "'w services \<Rightarrow> vdb_config \<Rightarrow> 'w state \<Rightarrow> (error + vector_db) \<times> 'w state" where
  "weaviate_init X cfg st =
     (let cls = opt (class_name cfg) ''Document'' in
      case weaviate_create_schema X cls st of
        (Inl e, st1) \<Rightarrow> (Inl e, st1)
      | (Inr u, st1) \<Rightarrow> (Inr (WeaviateVectorDB cls), st1))"

fun weaviate_batch_data :: "nat \<Rightarrow> (embedding \<times> string \<times> pydict \<times> string) list \<Rightarrow> (string \<times> pydict \<times> embedding) list" where
  "weaviate_batch_data i [] = []"
| "weaviate_batch_data i ((e, document, md, doc_id) # rest) =
     (doc_id, native_metadata i document md, e) # weaviate_batch_data (Suc i) rest"

definition weaviate_add_documents :: "'w services \<Rightarrow> string \<Rightarrow> embedding list \<Rightarrow> string list \<Rightarrow> pydict list \<Rightarrow> string list \<Rightarrow> 'w state \<Rightarrow> (error + unit) \<times> 'w state" where
  "weaviate_add_documents X cls embeddings docs mds idents st =
     ask X as_none
       (WeaviateBatchAdd cls (weaviate_batch_data 0 (zip embeddings (zip docs (zip mds idents))))) st"

text \<open>
  One row of a Weaviate answer: its content, metadata and distance, and the ID the adapter
  makes up for it with \<^verbatim>\<open>uuid4\<close>.
\<close>

fun weaviate_rows :: "'w services \<Rightarrow> pydict list \<Rightarrow> 'w state \<Rightarrow> (error + (pyval \<times> pydict \<times> pyval \<times> string) list) \<times> 'w state" where
  "weaviate_rows X [] st = (Inr [], st)"
| "weaviate_rows X (item # rest) st =
     (case map_of item ''content'' of
        None \<Rightarrow> (Inl (KeyError ''content''), st)
      | Some c \<Rightarrow>
          (case dict_get_default item ''_additional'' (PDict []) of
             PDict extra \<Rightarrow>
               (case ask X as_string Uuid4 st of
                  (Inl e, st1) \<Rightarrow> (Inl e, st1)
                | (Inr u, st1) \<Rightarrow>
                    (case weaviate_rows X rest st1 of
                       (Inl e, st2) \<Rightarrow> (Inl e, st2)
                     | (Inr rows, st2) \<Rightarrow>
                         (Inr ((c, result_metadata item,
                                dict_get_default extra ''distance'' (PFloat 0 0), u) # rows), st2)))
           | other \<Rightarrow> (Inl (AttributeError ''object has no attribute get''), st)))"

definition weaviate_query :: "'w services \<Rightarrow> string \<Rightarrow> embedding list \<Rightarrow> nat \<Rightarrow> 'w state \<Rightarrow> (error + results) \<times> 'w state" where
  "weaviate_query X cls query_embeddings n_results st =
     (case query_embeddings of
        [] \<Rightarrow> (Inl (IndexError ''list index out of range''), st)
      | q # qs \<Rightarrow>
          (case ask X as_items (WeaviateGet cls q n_results) st of
             (Inl e, st1) \<Rightarrow> (Inl e, st1)
           | (Inr None, st1) \<Rightarrow>
               (Inr \<lparr>documents = Some [[]], metadatas = Some [[]],
                     distances = Some [[]], ids = Some [[]]\<rparr>, st1)
           | (Inr (Some items), st1) \<Rightarrow>
               (case weaviate_rows X items st1 of
                  (Inl e, st2) \<Rightarrow> (Inl e, st2)
                | (Inr rows, st2) \<Rightarrow>
                    (Inr \<lparr>documents = Some [map (\<lambda>(c, m, d, u). c) rows],
                          metadatas = Some [map (\<lambda>(c, m, d, u). m) rows],
                          distances = Some [map (\<lambda>(c, m, d, u). d) rows],
                          ids = Some [map (\<lambda>(c, m, d, u). u) rows]\<rparr>, st2))))"

definition weaviate_get_collection_info :: "'w services \<Rightarrow> string \<Rightarrow> 'w state \<Rightarrow> collection_info \<times> 'w state" where
  "weaviate_get_collection_info X cls st =
     (let failed = \<lparr>ci_name = cls, ci_count = 0, ci_provider = ''weaviate'',
                     ci_vector_size = None, ci_distance_metric = None\<rparr> in
      case ask X as_none (WeaviateSchemaGet cls) st of
        (Inl e, st1) \<Rightarrow> (failed, st1)
      | (Inr u, st1) \<Rightarrow>
          (case ask X as_aggregate (WeaviateAggregate cls) st1 of
             (Inl e, st2) \<Rightarrow> (failed, st2)
           | (Inr n, st2) \<Rightarrow> (failed\<lparr>ci_count := opt n 0\<rparr>, st2)))"

definition weaviate_delete_collection :: "'w services \<Rightarrow> string \<Rightarrow> 'w state \<Rightarrow> (error + unit) \<times> 'w state" where
  "weaviate_delete_collection X cls st = ask X as_none (WeaviateDeleteClass cls) st"

subsection \<open>The interface and the factory\<close>

fun add_documents :: "'w services \<Rightarrow> vector_db \<Rightarrow> embedding list \<Rightarrow> string list \<Rightarrow> pydict list \<Rightarrow> string list \<Rightarrow> 'w state \<Rightarrow> (error + unit) \<times> 'w state" where
  "add_documents X (ChromaDBVectorDB name) = chroma_add_documents X name"
| "add_documents X (WeaviateVectorDB cls) = weaviate_add_documents X cls"
| "add_documents X (QdrantVectorDB name) = qdrant_add_documents X name"

fun query_db :: "'w services \<Rightarrow> vector_db \<Rightarrow> embedding list \<Rightarrow> nat \<Rightarrow> 'w state \<Rightarrow> (error + results) \<times> 'w state" where
  "query_db X (ChromaDBVectorDB name) = chroma_query X name"
| "query_db X (WeaviateVectorDB cls) = weaviate_query X cls"
| "query_db X (QdrantVectorDB name) = qdrant_query X name"

fun get_collection_info :: "'w services \<Rightarrow> vector_db \<Rightarrow> 'w state \<Rightarrow> collection_info \<times> 'w state" where
  "get_collection_info X (ChromaDBVectorDB name) = chroma_get_collection_info X name"
| "get_collection_info X (WeaviateVectorDB cls) = weaviate_get_collection_info X cls"
| "get_collection_info X (QdrantVectorDB name) = qdrant_get_collection_info X name"

fun delete_collection :: "'w services \<Rightarrow> vector_db \<Rightarrow> 'w state \<Rightarrow> (error + unit) \<times> 'w state" where
  "delete_collection X (ChromaDBVectorDB name) = chroma_delete_collection X name"
| "delete_collection X (WeaviateVectorDB cls) = weaviate_delete_collection X cls"
| "delete_collection X (QdrantVectorDB name) = qdrant_delete_collection X name"

definition create_vector_db :: "'w services \<Rightarrow> vdb_config \<Rightarrow> 'w state \<Rightarrow> (error + vector_db) \<times> 'w state" where
  "create_vector_db X cfg st =
     (let prov = lower (opt (provider cfg) ''chromadb'') in
      if prov = ''chromadb'' then chroma_init X cfg st
      else if prov = ''weaviate'' then weaviate_init X cfg st
      else if prov = ''qdrant'' then qdrant_init X cfg st
      else (Inl (ValueError (''Unsupported vector database provider: '' @ prov)), st))"

section \<open>The pipeline\<close>

record pipeline =
  p_config :: config
  p_vector_db :: vector_db

text \<open>\<^verbatim>\<open>d[k] = v\<close>, as \<^verbatim>\<open>dict.update\<close> does it: a key keeps its place, a new key goes last.\<close>

fun dict_set :: "('k \<times> 'v) list \<Rightarrow> 'k \<Rightarrow> 'v \<Rightarrow> ('k \<times> 'v) list" where
  "dict_set [] k v = [(k, v)]"
| "dict_set ((k', v') # rest) k v =
     (if k' = k then (k, v) # rest else (k', v') # dict_set rest k v)"

text \<open>The ID the pipeline gives a chunk: \<^verbatim>\<open>f"{metadata['filename']}_chunk_{i}"\<close>.\<close>

definition chunk_doc_id :: "(pyval \<Rightarrow> string) \<Rightarrow> pyval \<Rightarrow> nat \<Rightarrow> string" where
  "chunk_doc_id r fname i = py_str r fname @ ''_chunk_'' @ str_of_nat i"

definition chunk_metadata :: "pydict \<Rightarrow> nat \<Rightarrow> string \<Rightarrow> pydict" where
  "chunk_metadata md i chunk =
     dict_set (dict_set md ''chunk_id'' (PInt (int i))) ''chunk_text'' (PStr (preview chunk))"

text \<open>The loop over \<^verbatim>\<open>enumerate(chunks)\<close>: embed, build the metadata, store.\<close>

fun process_chunks :: "'w services \<Rightarrow> (pyval \<Rightarrow> string) \<Rightarrow> vector_db \<Rightarrow> pydict \<Rightarrow> nat \<Rightarrow> string list \<Rightarrow> 'w state \<Rightarrow> (error + unit) \<times> 'w state" where
  "process_chunks X r v md i [] st = (Inr (), st)"
| "process_chunks X r v md i (chunk # rest) st =
     (case ask X as_vector (EmbedQuery chunk) st of
        (Inl e, st1) \<Rightarrow> (Inl e, st1)
      | (Inr emb, st1) \<Rightarrow>
          (case map_of (chunk_metadata md i chunk) ''filename'' of
             None \<Rightarrow> (Inl (KeyError ''filename''), st1)
           | Some fname \<Rightarrow>
               (case add_documents X v [emb] [chunk] [chunk_metadata md i chunk]
                       [chunk_doc_id r fname i] st1 of
                  (Inl e, st2) \<Rightarrow> (Inl e, st2)
                | (Inr u, st2) \<Rightarrow> process_chunks X r v md (Suc i) rest st2)))"

definition process_single_document :: "'w services \<Rightarrow> (pyval \<Rightarrow> string) \<Rightarrow> vector_db \<Rightarrow> document \<Rightarrow> 'w state \<Rightarrow> (error + string list) \<times> 'w state" where
  "process_single_document X r v doc st =
     (case ask X as_strings (SplitText (content doc)) st of
        (Inl e, st1) \<Rightarrow> (Inl e, st1)
      | (Inr chunks, st1) \<Rightarrow>
          (case process_chunks X r v (metadata doc) 0 chunks st1 of
             (Inl e, st2) \<Rightarrow> (Inl e, st2)
           | (Inr u, st2) \<Rightarrow> (Inr chunks, st2)))"

text \<open>\<^verbatim>\<open>ingest_document\<close>; the result is the chunk count it logs.\<close>

fun process_documents :: "'w services \<Rightarrow> (pyval \<Rightarrow> string) \<Rightarrow> vector_db \<Rightarrow> document list \<Rightarrow> nat \<Rightarrow> 'w state \<Rightarrow> (error + nat) \<times> 'w state" where
  "process_documents X r v [] total_chunks st = (Inr total_chunks, st)"
| "process_documents X r v (doc # rest) total_chunks st =
     (case process_single_document X r v doc st of
        (Inl e, st1) \<Rightarrow> (Inl e, st1)
      | (Inr chunks, st1) \<Rightarrow>
          process_documents X r v rest (total_chunks + length chunks) st1)"

definition ingest_document :: "'w services \<Rightarrow> loader_env \<Rightarrow> pipeline \<Rightarrow> string \<Rightarrow> 'w state \<Rightarrow> (error + nat) \<times> 'w state" where
  "ingest_document X env p file_path st =
     (case load_document env file_path of
        Inl e \<Rightarrow> (Inl e, st)
      | Inr (Many docs) \<Rightarrow> process_documents X (repr env) (p_vector_db p) docs 0 st
      | Inr (Single doc) \<Rightarrow>
          (case process_single_document X (repr env) (p_vector_db p) doc st of
             (Inl e, st1) \<Rightarrow> (Inl e, st1)
           | (Inr chunks, st1) \<Rightarrow> (Inr (length chunks), st1)))"

text \<open>
  \<^verbatim>\<open>ingest_directory\<close>: the loop that splits, embeds and stores every document, then the
  sum over \<^verbatim>\<open>split_text\<close> of every document again. The result is the pair it logs: the
  total chunk count and the number of documents.
\<close>

fun ingest_loop :: "'w services \<Rightarrow> (pyval \<Rightarrow> string) \<Rightarrow> vector_db \<Rightarrow> document list \<Rightarrow> 'w state \<Rightarrow> (error + unit) \<times> 'w state" where
  "ingest_loop X r v [] st = (Inr (), st)"
| "ingest_loop X r v (doc # rest) st =
     (case ask X as_strings (SplitText (content doc)) st of
        (Inl e, st1) \<Rightarrow> (Inl e, st1)
      | (Inr chunks, st1) \<Rightarrow>
          (case process_chunks X r v (metadata doc) 0 chunks st1 of
             (Inl e, st2) \<Rightarrow> (Inl e, st2)
           | (Inr u, st2) \<Rightarrow> ingest_loop X r v rest st2))"

fun count_chunks :: "'w services \<Rightarrow> document list \<Rightarrow> 'w state \<Rightarrow> (error + nat) \<times> 'w state" where
  "count_chunks X [] st = (Inr 0, st)"
| "count_chunks X (doc # rest) st =
     (case ask X as_strings (SplitText (content doc)) st of
        (Inl e, st1) \<Rightarrow> (Inl e, st1)
      | (Inr chunks, st1) \<Rightarrow>
          (case count_chunks X rest st1 of
             (Inl e, st2) \<Rightarrow> (Inl e, st2)
           | (Inr n, st2) \<Rightarrow> (Inr (length chunks + n), st2)))"

definition ingest_directory :: "'w services \<Rightarrow> loader_env \<Rightarrow> pipeline \<Rightarrow> string \<Rightarrow> 'w state \<Rightarrow> (error + nat \<times> nat) \<times> 'w state" where
  "ingest_directory X env p directory_path st =
     (case load_directory env directory_path of
        Inl e \<Rightarrow> (Inl e, st)
      | Inr (docs, errlog) \<Rightarrow>
          (case ingest_loop X (repr env) (p_vector_db p) docs st of
             (Inl e, st1) \<Rightarrow> (Inl e, st1)
           | (Inr u, st1) \<Rightarrow>
               (case count_chunks X docs st1 of
                  (Inl e, st2) \<Rightarrow> (Inl e, st2)
                | (Inr total_chunks, st2) \<Rightarrow> (Inr (total_chunks, length docs), st2))))"

subsection \<open>Retrieval and generation\<close>

record retrieved =
  r_content :: pyval
  r_metadata :: pydict
  r_distance :: "pyval option"

text \<open>
  The \<open>i\<close>-th formatted result: an index past the metadata or the distances raises;
  the distance is None when the result has no non-empty first distance list.
\<close>

definition first_distances :: "results \<Rightarrow> pyval list option" where
  "first_distances res =
     (case distances res of
        Some (d0 # ds) \<Rightarrow> (if d0 \<noteq> [] then Some d0 else None)
      | other \<Rightarrow> None)"

definition format_result :: "pyval list \<Rightarrow> pydict list \<Rightarrow> pyval list option \<Rightarrow> nat \<Rightarrow> error + retrieved" where
  "format_result docs0 mds0 dists0 i =
     (if i < length mds0 then
        (case dists0 of
           None \<Rightarrow> Inr \<lparr>r_content = docs0 ! i, r_metadata = mds0 ! i, r_distance = None\<rparr>
         | Some ds \<Rightarrow>
             (if i < length ds
              then Inr \<lparr>r_content = docs0 ! i, r_metadata = mds0 ! i, r_distance = Some (ds ! i)\<rparr>
              else Inl (IndexError ''list index out of range'')))
      else Inl (IndexError ''list index out of range''))"

fun format_results :: "pyval list \<Rightarrow> pydict list \<Rightarrow> pyval list option \<Rightarrow> nat list \<Rightarrow> error + retrieved list" where
  "format_results docs0 mds0 dists0 [] = Inr []"
| "format_results docs0 mds0 dists0 (i # rest) =
     (case format_result docs0 mds0 dists0 i of
        Inl e \<Rightarrow> Inl e
      | Inr d \<Rightarrow>
          (case format_results docs0 mds0 dists0 rest of
             Inl e \<Rightarrow> Inl e
           | Inr ds \<Rightarrow> Inr (d # ds)))"

definition retrieve_documents :: "'w services \<Rightarrow> pipeline \<Rightarrow> string \<Rightarrow> 'w state \<Rightarrow> (error + retrieved list) \<times> 'w state" where
  "retrieve_documents X p query st =
     (case ask X as_vector (EmbedQuery query) st of
        (Inl e, st1) \<Rightarrow> (Inl e, st1)
      | (Inr query_embedding, st1) \<Rightarrow>
          (case query_db X (p_vector_db p) [query_embedding]
                  (opt (max_results (p_config p)) 5) st1 of
             (Inl e, st2) \<Rightarrow> (Inl e, st2)
           | (Inr res, st2) \<Rightarrow>
               (case (documents res, metadatas res) of
                  (Some (docs0 # ds), Some (mds0 # ms)) \<Rightarrow>
                    (if distances res = Some [] then (Inr [], st2)
                     else (format_results docs0 mds0 (first_distances res)
                             [0..<length docs0], st2))
                | other \<Rightarrow> (Inr [], st2))))"

text \<open>\<^verbatim>\<open>sep.join(xs)\<close>, which raises on an item that is not a string.\<close>

fun join :: "string \<Rightarrow> string list \<Rightarrow> string" where
  "join sep [] = []"
| "join sep [x] = x"
| "join sep (x # y # rest) = x @ sep @ join sep (y # rest)"

fun str_items :: "pyval list \<Rightarrow> error + string list" where
  "str_items [] = Inr []"
| "str_items (PStr x # rest) =
     (case str_items rest of Inl e \<Rightarrow> Inl e | Inr xs \<Rightarrow> Inr (x # xs))"
| "str_items (v # rest) = Inl (TypeError ''sequence item: expected str instance'')"

definition system_prompt :: "string \<Rightarrow> string" where
  "system_prompt context =
     (let nl = [CHR 0x0A] @ replicate 8 (CHR '' '') in
      nl @ ''You are a helpful AI assistant. Answer the user'' @ [CHR 0x27] @
        ''s question based on the provided context.'' @
      nl @ nl @ ''Context:'' @ nl @ context @ nl @ nl @ ''Instructions:'' @
      nl @ ''- Use only the information provided in the context'' @
      nl @ ''- If the answer is not in the context, say so'' @
      nl @ ''- Be concise and accurate'' @
      nl @ ''- Cite relevant parts of the context when possible'' @ nl)"

definition generate_response :: "'w services \<Rightarrow> (pyval \<Rightarrow> string) \<Rightarrow> string \<Rightarrow> retrieved list \<Rightarrow> 'w state \<Rightarrow> (error + pyval) \<times> 'w state" where
  "generate_response X r query context_docs st =
     (case str_items (map r_content context_docs) of
        Inl e \<Rightarrow> (Inl e, st)
      | Inr texts \<Rightarrow>
          (case ask X as_content
                  (LlmInvoke (system_prompt (join [CHR 0x0A, CHR 0x0A] texts)) query) st of
             (Inl e, st1) \<Rightarrow> (Inl e, st1)
           | (Inr c, st1) \<Rightarrow>
               (case c of
                  PList xs \<Rightarrow> (Inr (PStr (join [CHR 0x0A] (map (py_str r) xs))), st1)
                | other \<Rightarrow> (Inr c, st1))))"

record query_result =
  question :: string
  response :: pyval
  retrieved_documents :: "retrieved list"
  num_sources :: nat

definition query :: "'w services \<Rightarrow> (pyval \<Rightarrow> string) \<Rightarrow> pipeline \<Rightarrow> string \<Rightarrow> 'w state \<Rightarrow> (error + query_result) \<times> 'w state" where
  "query X r p q st =
     (case retrieve_documents X p q st of
        (Inl e, st1) \<Rightarrow> (Inl e, st1)
      | (Inr retrieved_docs, st1) \<Rightarrow>
          (case generate_response X r q retrieved_docs st1 of
             (Inl e, st2) \<Rightarrow> (Inl e, st2)
           | (Inr resp, st2) \<Rightarrow>
               (Inr \<lparr>question = q, response = resp, retrieved_documents = retrieved_docs,
                     num_sources = length retrieved_docs\<rparr>, st2)))"

subsection \<open>Construction and clearing\<close>

text \<open>
  \<^verbatim>\<open>__init__\<close> after the configuration is read and logging is set up: the splitter, the
  embedding model, the vector database and the language model, in this order.
  \<open>environ\<close> is the process environment \<^verbatim>\<open>os.getenv\<close> reads.
\<close>

definition setup_llm :: "'w services \<Rightarrow> config \<Rightarrow> (string \<times> string) list \<Rightarrow> 'w state \<Rightarrow> (error + unit) \<times> 'w state" where
  "setup_llm X cfg environ st =
     (case map_of environ ''GROQ_API_KEY'' of
        None \<Rightarrow> (Inl (ValueError ''GROQ_API_KEY environment variable is required''), st)
      | Some api_key \<Rightarrow>
          if api_key = [] then (Inl (ValueError ''GROQ_API_KEY environment variable is required''), st)
          else ask X as_none
                 (MakeLlm (opt (llm_model cfg) ''llama-3.1-8b-instant'')
                    (opt (llm_temperature cfg) (PFloat 7 (-1)))
                    (opt (llm_max_tokens cfg) 1000) api_key) st)"

definition init :: "'w services \<Rightarrow> error + config \<Rightarrow> (string \<times> string) list \<Rightarrow> 'w state \<Rightarrow> (error + pipeline) \<times> 'w state" where
  "init X loaded_config environ st =
     (case loaded_config of
        Inl e \<Rightarrow> (Inl e, st)
      | Inr cfg \<Rightarrow>
          (case ask X as_none
                  (MakeSplitter (opt (chunk_size cfg) 1000) (opt (chunk_overlap cfg) 200)
                     (opt (separators cfg) [[CHR 0x0A, CHR 0x0A], [CHR 0x0A], '' '', []])) st of
             (Inl e, st1) \<Rightarrow> (Inl e, st1)
           | (Inr u1, st1) \<Rightarrow>
               (case ask X as_none
                       (MakeEmbeddings
                          (opt (embeddings_model cfg) ''sentence-transformers/all-MiniLM-L6-v2'')) st1 of
                  (Inl e, st2) \<Rightarrow> (Inl e, st2)
                | (Inr u2, st2) \<Rightarrow>
                    (case create_vector_db X (vector_db_config cfg) st2 of
                       (Inl e, st3) \<Rightarrow> (Inl e, st3)
                     | (Inr v, st3) \<Rightarrow>
                         (case setup_llm X cfg environ st3 of
                            (Inl e, st4) \<Rightarrow> (Inl e, st4)
                          | (Inr u4, st4) \<Rightarrow>
                              (Inr \<lparr>p_config = cfg, p_vector_db = v\<rparr>, st4))))))"

text \<open>
  \<^verbatim>\<open>clear_database\<close>; the result is the pipeline as the call leaves it. Every exception
  inside is raised again as \<^verbatim>\<open>Exception("Failed to clear database: ...")\<close>.
\<close>

definition clear_failed :: "error \<Rightarrow> error" where
  "clear_failed e = Exception (''Failed to clear database: '' @ err_msg e)"

definition clear_database :: "'w services \<Rightarrow> pipeline \<Rightarrow> 'w state \<Rightarrow> (error + pipeline) \<times> 'w state" where
  "clear_database X p st =
     (case get_collection_info X (p_vector_db p) st of
        (collection_info, st1) \<Rightarrow>
          (if ci_count collection_info = 0 then (Inr p, st1)
           else
             (case delete_collection X (p_vector_db p) st1 of
                (Inl e, st2) \<Rightarrow> (Inl (clear_failed e), st2)
              | (Inr u, st2) \<Rightarrow>
                  (case create_vector_db X (vector_db_config (p_config p)) st2 of
                     (Inl e, st3) \<Rightarrow> (Inl (clear_failed e), st3)
                   | (Inr v, st3) \<Rightarrow> (Inr (p\<lparr>p_vector_db := v\<rparr>), st3)))))"

section \<open>A reference world\<close>

text \<open>
  One concrete world to run the code in: a single collection whose writes insert or
  replace by ID (the behaviour the upsert calls are named after), a splitter that cuts at
  blanks, an embedding that is the length of the text, and a \<^verbatim>\<open>uuid4\<close> that returns a
  fresh string at every call.
\<close>

record ref_world =
  store :: "(point_id \<times> point) list"
  present :: bool
  uuid_counter :: nat

fun cut_at_blanks :: "string \<Rightarrow> string \<Rightarrow> string list" where
  "cut_at_blanks [] cur = (if cur = [] then [] else [cur])"
| "cut_at_blanks (c # cs) cur =
     (if c = CHR '' '' then (if cur = [] then cut_at_blanks cs [] else cur # cut_at_blanks cs [])
      else cut_at_blanks cs (cur @ [c]))"

definition upsert_points :: "point list \<Rightarrow> (point_id \<times> point) list \<Rightarrow> (point_id \<times> point) list" where
  "upsert_points ps s = foldl (\<lambda>acc pt. dict_set acc (point_id pt) pt) s ps"

definition hit_of :: "point \<Rightarrow> hit" where
  "hit_of pt = \<lparr>hit_id = point_id pt, hit_score = PFloat 1 0, hit_payload = payload pt\<rparr>"

definition stored_content :: "point \<Rightarrow> pyval" where
  "stored_content pt = dict_get_default (payload pt) ''content'' (PStr [])"

fun ref_services :: "ref_world services" where
  "ref_services (MakeSplitter cs co seps) w = (Inr RNone, w)"
| "ref_services (MakeEmbeddings m) w = (Inr RNone, w)"
| "ref_services (MakeLlm m t n k) w = (Inr RNone, w)"
| "ref_services (SplitText c) w =
     (case c of
        PStr t \<Rightarrow> (Inr (RStrings (cut_at_blanks t [])), w)
      | other \<Rightarrow> (Inl (TypeError ''expected string or bytes-like object''), w))"
| "ref_services (EmbedQuery t) w = (Inr (RVector [PInt (int (length t))]), w)"
| "ref_services Uuid4 w =
     (Inr (RString (''uuid-'' @ str_of_nat (uuid_counter w))),
      w\<lparr>uuid_counter := Suc (uuid_counter w)\<rparr>)"
| "ref_services (LlmInvoke sys q) w = (Inr (RContent (PStr ''answer'')), w)"
| "ref_services (ChromaGetOrCreate pth name metric) w = (Inr RNone, w\<lparr>present := True\<rparr>)"
| "ref_services (ChromaAdd name es ds ms is) w =
     (if length es = length is \<and> length ds = length is \<and> length ms = length is
      then (Inr RNone,
            w\<lparr>store := upsert_points
                 (map (\<lambda>(e, d, m, i). \<lparr>point_id = StrId i, vector = e,
                                        payload = (''content'', PStr d) # m\<rparr>)
                    (zip es (zip ds (zip ms is)))) (store w)\<rparr>)
      else (Inl (ValueError ''Unequal lengths''), w))"
| "ref_services (ChromaQuery name qs n) w =
     (Inr (RResults \<lparr>documents = Some [map (\<lambda>(i, pt). stored_content pt) (take n (store w))],
                     metadatas = Some [map (\<lambda>(i, pt). payload pt) (take n (store w))],
                     distances = Some [map (\<lambda>(i, pt). PFloat 0 0) (take n (store w))],
                     ids = Some [map (\<lambda>(i, pt). str_of_point_id i) (take n (store w))]\<rparr>), w)"
| "ref_services (ChromaCount name) w = (Inr (RCount (length (store w))), w)"
| "ref_services (ChromaDelete name) w = (Inr RNone, w\<lparr>store := [], present := False\<rparr>)"
| "ref_services QdrantGetCollections w =
     (Inr (RStrings (if present w then [''documents''] else [])), w)"
| "ref_services (QdrantCreateCollection name n d) w = (Inr RNone, w\<lparr>present := True\<rparr>)"
| "ref_services (QdrantUpsert name ps) w =
     (Inr RNone, w\<lparr>store := upsert_points ps (store w)\<rparr>)"
| "ref_services (QdrantSearch name q n) w =
     (Inr (RHits (map (\<lambda>(i, pt). hit_of pt) (take n (store w)))), w)"
| "ref_services (QdrantGetCollection name) w = (Inr (RCollection 384 ''COSINE''), w)"
| "ref_services (QdrantCount name) w = (Inr (RCount (length (store w))), w)"
| "ref_services (QdrantDeleteCollection name) w =
     (Inr RNone, w\<lparr>store := [], present := False\<rparr>)"
| "ref_services (WeaviateSchemaExists cls) w = (Inr (RBool (present w)), w)"
| "ref_services (WeaviateCreateClass cls) w = (Inr RNone, w\<lparr>present := True\<rparr>)"
| "ref_services (WeaviateBatchAdd cls items) w =
     (Inr RNone,
      w\<lparr>store := upsert_points
           (map (\<lambda>(i, props, e). \<lparr>point_id = StrId i, vector = e, payload = props\<rparr>) items)
           (store w)\<rparr>)"
| "ref_services (WeaviateGet cls q n) w =
     (Inr (RItems (Some (map (\<lambda>(i, pt). payload pt) (take n (store w))))), w)"
| "ref_services (WeaviateSchemaGet cls) w = (Inr RNone, w)"
| "ref_services (WeaviateAggregate cls) w = (Inr (RAggregate (Some (length (store w)))), w)"
| "ref_services (WeaviateDeleteClass cls) w = (Inr RNone, w\<lparr>store := [], present := False\<rparr>)"

definition ref_start :: "ref_world state" where
  "ref_start =
     \<lparr>world = \<lparr>store = [], present = True, uuid_counter = 0\<rparr>, calls = []\<rparr>"

definition ref_config :: "string \<Rightarrow> config" where
  "ref_config prov =
     \<lparr>vector_db_config =
        \<lparr>provider = Some prov, path = None, collection_name = None, class_name = None,
         distance_metric = None, vector_size = None\<rparr>,
      chunk_size = None, chunk_overlap = None, separators = None, embeddings_model = None,
      llm_model = None, llm_temperature = None, llm_max_tokens = None, max_results = None\<rparr>"

definition ref_pipeline :: "vector_db \<Rightarrow> pipeline" where
  "ref_pipeline v = \<lparr>p_config = ref_config ''qdrant'', p_vector_db = v\<rparr>"

text \<open>The backend-side IDs a call writes records under.\<close>

fun written_ids :: "call \<Rightarrow> point_id list" where
  "written_ids (ChromaAdd name es ds ms is) = map StrId is"
| "written_ids (WeaviateBatchAdd cls items) = map (\<lambda>(i, props, e). StrId i) items"
| "written_ids (QdrantUpsert name ps) = map point_id ps"
| "written_ids c = []"

fun is_split :: "call \<Rightarrow> bool" where
  "is_split (SplitText c) = True"
| "is_split c = False"

fun is_embed :: "call \<Rightarrow> bool" where
  "is_embed (EmbedQuery t) = True"
| "is_embed c = False"

fun is_write :: "call \<Rightarrow> bool" where
  "is_write (ChromaAdd name es ds ms is) = True"
| "is_write (WeaviateBatchAdd cls items) = True"
| "is_write (QdrantUpsert name ps) = True"
| "is_write c = False"

fun is_delete :: "call \<Rightarrow> bool" where
  "is_delete (ChromaDelete name) = True"
| "is_delete (QdrantDeleteCollection name) = True"
| "is_delete (WeaviateDeleteClass cls) = True"
| "is_delete c = False"

fun is_create :: "call \<Rightarrow> bool" where
  "is_create (ChromaGetOrCreate pth name metric) = True"
| "is_create QdrantGetCollections = True"
| "is_create (QdrantCreateCollection name n d) = True"
| "is_create (WeaviateSchemaExists cls) = True"
| "is_create (WeaviateCreateClass cls) = True"
| "is_create c = False"

text \<open>
  The same world with a splitter whose configuration changes while the code runs: it
  answers the first \<open>k\<close> \<^verbatim>\<open>split_text\<close> calls as before and every later one with no chunk.
\<close>

fun drifting_services :: "(nat \<times> ref_world) services" where
  "drifting_services (SplitText c) (k, w) =
     (case k of
        0 \<Rightarrow> (Inr (RStrings []), (k, w))
      | Suc k' \<Rightarrow> (case ref_services (SplitText c) w of (r, w') \<Rightarrow> (r, (k', w'))))"
| "drifting_services c (k, w) = (case ref_services c w of (r, w') \<Rightarrow> (r, (k, w')))"

definition drift_start :: "nat \<Rightarrow> (nat \<times> ref_world) state" where
  "drift_start k = \<lparr>world = (k, world ref_start), calls = []\<rparr>"

definition ref_split :: "pyval \<Rightarrow> string list" where
  "ref_split c = (case c of PStr t \<Rightarrow> cut_at_blanks t [] | other \<Rightarrow> [])"

text \<open>One document, and its ingestion once and twice in a row into a vector database.\<close>

definition demo_doc :: document where
  "demo_doc = \<lparr>content = PStr ''x y'', metadata = [(''filename'', PStr ''a.txt'')]\<rparr>"

definition ingest_once :: "vector_db \<Rightarrow> ref_world state" where
  "ingest_once v = snd (process_single_document ref_services const_repr v demo_doc ref_start)"

definition ingest_twice :: "vector_db \<Rightarrow> ref_world state" where
  "ingest_twice v =
     snd (process_single_document ref_services const_repr v demo_doc (ingest_once v))"

text \<open>The documents the small file system's directory loads to.\<close>

definition demo_docs :: "document list" where
  "demo_docs =
     [\<lparr>content = PStr ''x y'',
       metadata = [(''filename'', PStr ''a.txt''), (''file_path'', PStr ''d/a.txt''),
                   (''file_size'', PInt 3), (''file_type'', PStr ''.txt''),
                   (''character_count'', PInt 3)]\<rparr>,
      \<lparr>content = PStr ''u'',
       metadata = [(''filename'', PStr ''c.json''), (''file_path'', PStr ''d/c.json''),
                   (''file_size'', PInt 3), (''file_type'', PStr ''.json''),
                   (''character_count'', PInt 1), (''json_index'', PInt 0)]\<rparr>,
      \<lparr>content = PStr ''v'',
       metadata = [(''filename'', PStr ''c.json''), (''file_path'', PStr ''d/c.json''),
                   (''file_size'', PInt 3), (''file_type'', PStr ''.json''),
                   (''character_count'', PInt 1), (''json_index'', PInt 1)]\<rparr>]"

section \<open>Notions the properties are stated with\<close>

text \<open>How many calls of a trace split a text, embed a text, write records.\<close>

definition n_split :: "call list \<Rightarrow> nat" where
  "n_split tr = length (filter is_split tr)"

definition n_embed :: "call list \<Rightarrow> nat" where
  "n_embed tr = length (filter is_embed tr)"

definition n_write :: "call list \<Rightarrow> nat" where
  "n_write tr = length (filter is_write tr)"

text \<open>
  The splitter is a function \<open>f\<close> of the text on the given documents: whenever it is asked,
  it answers with \<open>f\<close> of the content and leaves the world as it is.
\<close>

definition pure_split :: "'w services \<Rightarrow> (pyval \<Rightarrow> string list) \<Rightarrow> document list \<Rightarrow> bool" where
  "pure_split X f docs =
     (\<forall>d\<in>set docs. \<forall>w. X (SplitText (content d)) w = (Inr (RStrings (f (content d))), w))"

definition total_chunks_of :: "(pyval \<Rightarrow> string list) \<Rightarrow> document list \<Rightarrow> nat" where
  "total_chunks_of f docs = sum_list (map (\<lambda>d. length (f (content d))) docs)"

text \<open>\<^verbatim>\<open>uuid4\<close> always returns a string.\<close>

definition uuid4_total :: "'w services \<Rightarrow> bool" where
  "uuid4_total X = (\<forall>w. \<exists>u w'. X Uuid4 w = (Inr (RString u), w'))"

text \<open>\<^verbatim>\<open>int\<close> does not raise on the logical ID, when the adapter applies it.\<close>

definition int_ok :: "string \<Rightarrow> bool" where
  "int_ok doc_id =
     (case py_int_digits doc_id of Inl e \<Rightarrow> \<not> isdigit doc_id | Inr n \<Rightarrow> True)"

definition zip4 :: "embedding list \<Rightarrow> string list \<Rightarrow> pydict list \<Rightarrow> string list \<Rightarrow> (embedding \<times> string \<times> pydict \<times> string) list" where
  "zip4 es ds ms is = zip es (zip ds (zip ms is))"

text \<open>
  The backend returns at most as many results as the query asks for.
\<close>

definition honours_limit :: "'w services \<Rightarrow> bool" where
  "honours_limit X =
     ((\<forall>name qs n w res w' d0 ds.
         X (ChromaQuery name qs n) w = (Inr (RResults res), w') \<and>
         documents res = Some (d0 # ds) \<longrightarrow> length d0 \<le> n) \<and>
      (\<forall>name q n w hs w'.
         X (QdrantSearch name q n) w = (Inr (RHits hs), w') \<longrightarrow> length hs \<le> n) \<and>
      (\<forall>cls q n w items w'.
         X (WeaviateGet cls q n) w = (Inr (RItems (Some items)), w') \<longrightarrow> length items \<le> n))"

text \<open>The call with which an adapter deletes its collection.\<close>

fun delete_call :: "vector_db \<Rightarrow> call" where
  "delete_call (ChromaDBVectorDB name) = ChromaDelete name"
| "delete_call (WeaviateVectorDB cls) = WeaviateDeleteClass cls"
| "delete_call (QdrantVectorDB name) = QdrantDeleteCollection name"

section \<open>Properties of the document loader\<close>

subsection \<open>Errors of \<^verbatim>\<open>load_document\<close>\<close>

text \<open>
  A path that does not exist and whose extension is not supported fails with
  FileNotFoundError, not with the ValueError of an unsupported format: existence is
  checked first.
\<close>

theorem load_document_missing_unsupported_counterexample:
  "\<not> path_exists demo_env ''n.xyz'' \<and>
   lower (path_suffix ''n.xyz'') \<notin> set supported_formats \<and>
   load_document demo_env ''n.xyz'' = Inl (FileNotFoundError ''File not found: n.xyz'')"
  by code_simp

text \<open>
  Claim C7, as the code has it: a path that does not exist fails with FileNotFoundError
  whatever its extension, and a path that exists and whose lower-cased extension is not
  one of .txt, .pdf, .docx, .json fails with ValueError ("Unsupported file format").
  The two are different exception classes.
\<close>

theorem load_document_error_kinds:
  "(\<not> path_exists env p \<longrightarrow>
      load_document env p = Inl (FileNotFoundError (''File not found: '' @ p))) \<and>
   (path_exists env p \<and> lower (path_suffix p) \<notin> set supported_formats \<longrightarrow>
      load_document env p = Inl (ValueError (''Unsupported file format: '' @ path_suffix p)))"
  by (auto simp: load_document_def path_exists_def Let_def)

theorem load_document_error_kinds_witness:
  "load_document demo_env ''d/m.txt'' = Inl (FileNotFoundError ''File not found: d/m.txt'') \<and>
   load_document demo_env ''d/e.xyz'' = Inl (ValueError ''Unsupported file format: .xyz'')"
proof -
  have 1: "\<not> path_exists demo_env ''d/m.txt''" by code_simp
  have 2: "path_exists demo_env ''d/e.xyz'' \<and>
           lower (path_suffix ''d/e.xyz'') \<notin> set supported_formats" by code_simp
  have 3: "path_suffix ''d/e.xyz'' = ''.xyz''" by code_simp
  from load_document_error_kinds [of demo_env "''d/m.txt''"] 1
       load_document_error_kinds [of demo_env "''d/e.xyz''"] 2 3
  show ?thesis by simp
qed

subsection \<open>JSON files\<close>

lemma json_content_not_None: "json_content r x \<noteq> PNone"
  by (cases x) (auto simp: json_content_def)

lemma json_doc_ok:
  "has_len (json_content (repr env) x) \<Longrightarrow>
   json_doc env p f tag x =
     Inr \<lparr>content = json_content (repr env) x,
          metadata = base_metadata p f (the_len (json_content (repr env) x)) @ [tag]\<rparr>"
  using json_content_not_None [of "repr env" x]
  by (cases "json_content (repr env) x") (simp_all add: json_doc_def has_len_def the_len_def Let_def)

lemma map_of_json_index:
  "map_of (base_metadata p f n @ [(''json_index'', v)]) ''json_index'' = Some v"
  by (simp add: base_metadata_def)

lemma map_of_json_key:
  "map_of (base_metadata p f n @ [(''json_key'', v)]) ''json_key'' = Some v"
  by (simp add: base_metadata_def)

lemma json_list_docs_ok:
  "\<forall>x\<in>set xs. has_len (json_content (repr env) x) \<Longrightarrow>
   \<exists>ds. json_list_docs env p f i xs = Inr ds \<and> length ds = length xs \<and>
     (\<forall>j<length xs. content (ds ! j) = json_content (repr env) (xs ! j) \<and>
        map_of (metadata (ds ! j)) ''json_index'' = Some (PInt (int (i + j))))"
proof (induction xs arbitrary: i)
  case Nil
  show ?case by simp
next
  case (Cons x xs)
  define n where "n = the_len (json_content (repr env) x)"
  from Cons.prems have d: "json_doc env p f (''json_index'', PInt (int i)) x =
      Inr \<lparr>content = json_content (repr env) x,
           metadata = base_metadata p f n @ [(''json_index'', PInt (int i))]\<rparr>"
    by (simp add: json_doc_ok n_def)
  from Cons.prems Cons.IH [of "Suc i"] obtain ds where
    ds: "json_list_docs env p f (Suc i) xs = Inr ds" "length ds = length xs"
    "\<forall>j<length xs. content (ds ! j) = json_content (repr env) (xs ! j) \<and>
        map_of (metadata (ds ! j)) ''json_index'' = Some (PInt (int (Suc i + j)))"
    by auto
  show ?case
  proof (intro exI conjI allI impI)
    show "json_list_docs env p f i (x # xs) =
      Inr (\<lparr>content = json_content (repr env) x,
           metadata = base_metadata p f n @ [(''json_index'', PInt (int i))]\<rparr> # ds)"
      using d ds(1) by simp
  next
    show "length (\<lparr>content = json_content (repr env) x,
           metadata = base_metadata p f n @ [(''json_index'', PInt (int i))]\<rparr> # ds) = length (x # xs)"
      using ds(2) by simp
  next
    fix j assume "j < length (x # xs)"
    then show "content ((\<lparr>content = json_content (repr env) x,
           metadata = base_metadata p f n @ [(''json_index'', PInt (int i))]\<rparr> # ds) ! j) =
       json_content (repr env) ((x # xs) ! j)"
      using ds(3) by (cases j) auto
  next
    fix j assume "j < length (x # xs)"
    then show "map_of (metadata ((\<lparr>content = json_content (repr env) x,
           metadata = base_metadata p f n @ [(''json_index'', PInt (int i))]\<rparr> # ds) ! j)) ''json_index'' =
       Some (PInt (int (i + j)))"
      using ds(3) by (cases j) (auto simp: map_of_json_index map_of_json_key simp del: map_of_append)
  qed
qed

lemma json_dict_docs_ok:
  "\<forall>kv\<in>set kvs. has_len (json_content (repr env) (snd kv)) \<Longrightarrow>
   \<exists>ds. json_dict_docs env p f kvs = Inr ds \<and> length ds = length kvs \<and>
     (\<forall>j<length kvs. content (ds ! j) = json_content (repr env) (snd (kvs ! j)) \<and>
        map_of (metadata (ds ! j)) ''json_key'' = Some (PStr (fst (kvs ! j))))"
proof (induction kvs)
  case Nil
  show ?case by simp
next
  case (Cons kv kvs)
  obtain k x where kv: "kv = (k, x)" by (cases kv)
  define n where "n = the_len (json_content (repr env) x)"
  from Cons.prems kv have d: "json_doc env p f (''json_key'', PStr k) x =
      Inr \<lparr>content = json_content (repr env) x,
           metadata = base_metadata p f n @ [(''json_key'', PStr k)]\<rparr>"
    by (simp add: json_doc_ok n_def)
  from Cons.prems Cons.IH obtain ds where
    ds: "json_dict_docs env p f kvs = Inr ds" "length ds = length kvs"
    "\<forall>j<length kvs. content (ds ! j) = json_content (repr env) (snd (kvs ! j)) \<and>
        map_of (metadata (ds ! j)) ''json_key'' = Some (PStr (fst (kvs ! j)))"
    by auto
  let ?d = "\<lparr>content = json_content (repr env) x,
           metadata = base_metadata p f n @ [(''json_key'', PStr k)]\<rparr>"
  have 1: "json_dict_docs env p f (kv # kvs) = Inr (?d # ds)"
    using d ds(1) kv by simp
  have 2: "length (?d # ds) = length (kv # kvs)" using ds(2) by simp
  have 3: "\<forall>j<length (kv # kvs). content ((?d # ds) ! j) = json_content (repr env) (snd ((kv # kvs) ! j)) \<and>
        map_of (metadata ((?d # ds) ! j)) ''json_key'' = Some (PStr (fst ((kv # kvs) ! j)))"
  proof (intro allI impI)
    fix j assume "j < length (kv # kvs)"
    then show "content ((?d # ds) ! j) = json_content (repr env) (snd ((kv # kvs) ! j)) \<and>
        map_of (metadata ((?d # ds) ! j)) ''json_key'' = Some (PStr (fst ((kv # kvs) ! j)))"
      using ds(3) kv by (cases j) (auto simp: map_of_json_index map_of_json_key simp del: map_of_append)
  qed
  from 1 2 3 show ?case by blast
qed

text \<open>
  Two JSON files on which the loader does not do what claim C6 says: an element whose
  \<^verbatim>\<open>content\<close> field is present and is the empty string gets its content from
  \<^verbatim>\<open>publication_description\<close>; and a top-level \<^verbatim>\<open>null\<close> gives a document with empty
  content, while its string form is "None".
\<close>

theorem load_json_counterexample:
  "load_document
     (json_env (PList [PDict [(''content'', PStr []), (''publication_description'', PStr ''x'')]]))
     ''j.json'' =
     Inr (Many [\<lparr>content = PStr ''x'',
                  metadata = [(''filename'', PStr ''j.json''), (''file_path'', PStr ''j.json''),
                              (''file_size'', PInt 3), (''file_type'', PStr ''.json''),
                              (''character_count'', PInt 1), (''json_index'', PInt 0)]\<rparr>]) \<and>
   load_document (json_env PNone) ''j.json'' =
     Inr (Many [\<lparr>content = PStr [],
                  metadata = [(''filename'', PStr ''j.json''), (''file_path'', PStr ''j.json''),
                              (''file_size'', PInt 3), (''file_type'', PStr ''.json''),
                              (''character_count'', PInt 0)]\<rparr>]) \<and>
   py_str const_repr PNone = ''None''"
  by code_simp

text \<open>
  Claim C6, as the code has it. For a top-level array (object), when the content chosen
  for every element has a length, the load returns one document per element, in order;
  the content of the \<open>j\<close>-th is \<open>json_content\<close> of the \<open>j\<close>-th element (for a dictionary
  the first truthy one of its \<^verbatim>\<open>content\<close> and \<^verbatim>\<open>publication_description\<close> fields, else its
  string form; for any other element its string form) and its metadata holds
  \<^verbatim>\<open>json_index\<close> \<open>j\<close> (\<^verbatim>\<open>json_key\<close>, the element's key). For any other top-level value
  the load returns exactly one document, whose content is the value's string form, or
  the empty string for \<^verbatim>\<open>null\<close>.
\<close>

theorem load_json_elements:
  assumes "json_load f = Inr data"
  shows
    "(\<forall>xs. data = PList xs \<and> (\<forall>x\<in>set xs. has_len (json_content (repr env) x)) \<longrightarrow>
        (\<exists>ds. load_json env p f = Inr ds \<and> length ds = length xs \<and>
           (\<forall>j<length xs. content (ds ! j) = json_content (repr env) (xs ! j) \<and>
              map_of (metadata (ds ! j)) ''json_index'' = Some (PInt (int j))))) \<and>
     (\<forall>kvs. data = PDict kvs \<and> (\<forall>kv\<in>set kvs. has_len (json_content (repr env) (snd kv))) \<longrightarrow>
        (\<exists>ds. load_json env p f = Inr ds \<and> length ds = length kvs \<and>
           (\<forall>j<length kvs. content (ds ! j) = json_content (repr env) (snd (kvs ! j)) \<and>
              map_of (metadata (ds ! j)) ''json_key'' = Some (PStr (fst (kvs ! j)))))) \<and>
     ((\<forall>xs. data \<noteq> PList xs) \<and> (\<forall>kvs. data \<noteq> PDict kvs) \<longrightarrow>
        load_json env p f =
          Inr [\<lparr>content = PStr (if data = PNone then [] else py_str (repr env) data),
                metadata = base_metadata p f
                  (length (if data = PNone then [] else py_str (repr env) data))\<rparr>])"
proof (intro conjI allI impI)
  fix xs assume a: "data = PList xs \<and> (\<forall>x\<in>set xs. has_len (json_content (repr env) x))"
  then have "load_json env p f = json_list_docs env p f 0 xs"
    using assms by (simp add: load_json_def)
  with a json_list_docs_ok [of xs env p f 0]
  show "\<exists>ds. load_json env p f = Inr ds \<and> length ds = length xs \<and>
           (\<forall>j<length xs. content (ds ! j) = json_content (repr env) (xs ! j) \<and>
              map_of (metadata (ds ! j)) ''json_index'' = Some (PInt (int j)))"
    by simp
next
  fix kvs assume a: "data = PDict kvs \<and> (\<forall>kv\<in>set kvs. has_len (json_content (repr env) (snd kv)))"
  then have "load_json env p f = json_dict_docs env p f kvs"
    using assms by (simp add: load_json_def)
  with a json_dict_docs_ok [of kvs env p f]
  show "\<exists>ds. load_json env p f = Inr ds \<and> length ds = length kvs \<and>
           (\<forall>j<length kvs. content (ds ! j) = json_content (repr env) (snd (kvs ! j)) \<and>
              map_of (metadata (ds ! j)) ''json_key'' = Some (PStr (fst (kvs ! j))))"
    by simp
next
  assume "(\<forall>xs. data \<noteq> PList xs) \<and> (\<forall>kvs. data \<noteq> PDict kvs)"
  then show "load_json env p f =
          Inr [\<lparr>content = PStr (if data = PNone then [] else py_str (repr env) data),
                metadata = base_metadata p f
                  (length (if data = PNone then [] else py_str (repr env) data))\<rparr>]"
    using assms by (cases data) (simp_all add: load_json_def Let_def)
qed

theorem load_json_elements_witness:
  "(\<exists>ds. load_json (json_env PNone) ''j.json''
            (json_file (PList [PStr ''u'', PDict [(''content'', PStr ''v'')]])) = Inr ds \<and>
         length ds = 2 \<and> content (ds ! 0) = PStr ''u'' \<and> content (ds ! 1) = PStr ''v'' \<and>
         map_of (metadata (ds ! 1)) ''json_index'' = Some (PInt 1)) \<and>
   (\<exists>ds. load_json (json_env PNone) ''j.json''
            (json_file (PDict [(''k1'', PDict [(''publication_description'', PStr ''p'')]),
                               (''k2'', PInt 7)])) = Inr ds \<and>
         length ds = 2 \<and> content (ds ! 0) = PStr ''p'' \<and> content (ds ! 1) = PStr ''7'' \<and>
         map_of (metadata (ds ! 1)) ''json_key'' = Some (PStr ''k2'')) \<and>
   (\<exists>m. load_json (json_env PNone) ''j.json'' (json_file (PInt 42)) =
     Inr [\<lparr>content = PStr ''42'', metadata = m\<rparr>])"
proof -
  have s: "str_of_nat 7 = ''7''" "str_of_nat 42 = ''42''"
    by (simp_all add: str_of_nat.simps digit_char_def)
  have j: "\<And>v. json_load (json_file v) = Inr v" by (simp add: json_file_def)
  have r: "\<And>v. repr (json_env v) = const_repr" by (simp add: json_env_def)
  note e = json_content_def dict_get_def has_len_def r str_of_int_def s All_less_Suc numeral_2_eq_2
  show ?thesis
    using load_json_elements [OF j, of "PList [PStr ''u'', PDict [(''content'', PStr ''v'')]]" "json_env PNone" "''j.json''"]
      load_json_elements [OF j, of "PDict [(''k1'', PDict [(''publication_description'', PStr ''p'')]), (''k2'', PInt 7)]" "json_env PNone" "''j.json''"]
      load_json_elements [OF j, of "PInt 42" "json_env PNone" "''j.json''"]
    by (auto simp add: e)
qed

subsection \<open>Directories\<close>

lemma load_files_acc:
  "load_files env ps (docs, lg) =
     (docs @ concat (map (spec_docs_of env) (filter (eligible env) ps)),
      lg @ concat (map (spec_errors_of env) (filter (eligible env) ps)))"
proof (induction ps arbitrary: docs lg)
  case Nil
  show ?case by simp
next
  case (Cons p ps)
  show ?case
  proof (cases "eligible env p")
    case False
    then show ?thesis using Cons.IH by simp
  next
    case True
    show ?thesis
    proof (cases "load_document env p")
      case (Inl e)
      with True show ?thesis using Cons.IH by (simp add: spec_docs_of_def spec_errors_of_def)
    next
      case (Inr l)
      with True show ?thesis using Cons.IH
        by (cases l) (simp_all add: spec_docs_of_def spec_errors_of_def)
    qed
  qed
qed

text \<open>
  Claim C5: for a directory that exists and can be listed, \<^verbatim>\<open>load_directory\<close> looks only at
  the paths \<^verbatim>\<open>iterdir\<close> lists (the immediate children), keeps those that are regular files
  with a supported extension, and returns the concatenation, in listing order, of what
  each of them loads to (a JSON file's list flattened into it, nothing for a file whose
  load fails); the error log holds one line for each file whose load failed, and no load
  failure stops the loop.
\<close>

theorem load_directory_concat:
  assumes "map_of (fs env) dir = Some d" and "iterdir d = Inr children"
  shows "load_directory env dir =
           Inr (concat (map (spec_docs_of env) (filter (eligible env) children)),
                concat (map (spec_errors_of env) (filter (eligible env) children)))"
  using assms by (simp add: load_directory_def load_files_acc)

theorem load_directory_concat_witness:
  "load_directory demo_env ''d'' =
     Inr (demo_docs, [''Error loading d/b.pdf: Error reading PDF file: EOF marker not found''])"
proof -
  have 1: "map_of (fs demo_env) ''d'' =
      Some (folder [''d/a.txt'', ''d/b.pdf'', ''d/c.json'', ''d/e.xyz'', ''d/s''])"
    by code_simp
  have 2: "iterdir (folder [''d/a.txt'', ''d/b.pdf'', ''d/c.json'', ''d/e.xyz'', ''d/s'']) =
      Inr [''d/a.txt'', ''d/b.pdf'', ''d/c.json'', ''d/e.xyz'', ''d/s'']"
    by (simp add: folder_def)
  have 3: "(concat (map (spec_docs_of demo_env)
              (filter (eligible demo_env) [''d/a.txt'', ''d/b.pdf'', ''d/c.json'', ''d/e.xyz'', ''d/s''])),
            concat (map (spec_errors_of demo_env)
              (filter (eligible demo_env) [''d/a.txt'', ''d/b.pdf'', ''d/c.json'', ''d/e.xyz'', ''d/s'']))) =
           (demo_docs, [''Error loading d/b.pdf: Error reading PDF file: EOF marker not found''])"
    by code_simp
  show ?thesis
    unfolding load_directory_concat [OF 1 2] 3 ..
qed

section \<open>Properties of the vector database adapters\<close>

subsection \<open>Lists of different lengths\<close>

lemma length_zip4:
  "length (zip4 es ds ms is) = min (length es) (min (length ds) (min (length ms) (length is)))"
  by (simp add: zip4_def)

lemma nth_zip4:
  "j < length (zip4 es ds ms is) \<Longrightarrow> zip4 es ds ms is ! j = (es ! j, ds ! j, ms ! j, is ! j)"
  by (simp add: zip4_def)

lemma length_weaviate_batch_data: "length (weaviate_batch_data i zs) = length zs"
  by (induction i zs rule: weaviate_batch_data.induct) simp_all

lemma nth_weaviate_batch_data:
  "j < length zs \<Longrightarrow>
   weaviate_batch_data i zs ! j =
     (case zs ! j of (e, d, m, doc_id) \<Rightarrow> (doc_id, native_metadata (i + j) d m, e))"
proof (induction i zs arbitrary: j rule: weaviate_batch_data.induct)
  case (1 i)
  then show ?case by simp
next
  case (2 i e document md doc_id rest)
  then show ?case by (cases j) simp_all
qed

lemma qdrant_points_shape:
  "qdrant_points X i zs st = (Inr pts, st1) \<Longrightarrow>
   length pts = length zs \<and>
   (\<forall>j<length zs. vector (pts ! j) = fst (zs ! j) \<and>
      payload (pts ! j) = native_metadata (i + j) (fst (snd (zs ! j))) (fst (snd (snd (zs ! j)))))"
proof (induction X i zs st arbitrary: pts st1 rule: qdrant_points.induct)
  case (1 X i st)
  then show ?case by simp
next
  case (2 X i e document md doc_id rest st)
  from "2.prems" obtain pid sta where a: "qdrant_point_id X doc_id st = (Inr pid, sta)"
    by (auto split: prod.splits sum.splits)
  with "2.prems" obtain ps where b: "qdrant_points X (Suc i) rest sta = (Inr ps, st1)"
    and c: "pts = \<lparr>point_id = pid, vector = e, payload = native_metadata i document md\<rparr> # ps"
    by (auto split: prod.splits sum.splits)
  from "2.IH" [OF a [symmetric] refl b] have ih: "length ps = length rest \<and>
   (\<forall>j<length rest. vector (ps ! j) = fst (rest ! j) \<and>
      payload (ps ! j) = native_metadata (Suc i + j) (fst (snd (rest ! j))) (fst (snd (snd (rest ! j)))))" .
  show ?case
  proof (intro conjI allI impI)
    show "length pts = length ((e, document, md, doc_id) # rest)" using ih c by simp
  next
    fix j assume "j < length ((e, document, md, doc_id) # rest)"
    then show "vector (pts ! j) = fst (((e, document, md, doc_id) # rest) ! j)"
      using ih c by (cases j) simp_all
  next
    fix j assume "j < length ((e, document, md, doc_id) # rest)"
    then show "payload (pts ! j) =
         native_metadata (i + j) (fst (snd (((e, document, md, doc_id) # rest) ! j)))
          (fst (snd (snd (((e, document, md, doc_id) # rest) ! j))))"
      using ih c by (cases j) simp_all
  qed
qed

lemma qdrant_point_id_total:
  assumes "uuid4_total X" and "int_ok doc_id"
  shows "\<exists>pid st1. qdrant_point_id X doc_id st = (Inr pid, st1)"
proof (cases "doc_id \<noteq> [] \<and> isdigit doc_id")
  case True
  with assms(2) obtain n where "py_int_digits doc_id = Inr n"
    by (cases "py_int_digits doc_id") (auto simp: int_ok_def)
  with True show ?thesis by (simp add: qdrant_point_id_def)
next
  case False
  from assms(1) obtain u w' where "X Uuid4 (world st) = (Inr (RString u), w')"
    unfolding uuid4_total_def by blast
  with False show ?thesis
    by (auto simp: qdrant_point_id_def ask_def invoke_def)
qed

lemma qdrant_points_total:
  "uuid4_total X \<Longrightarrow> \<forall>z\<in>set zs. int_ok (snd (snd (snd z))) \<Longrightarrow>
   \<exists>pts st1. qdrant_points X i zs st = (Inr pts, st1)"
proof (induction X i zs st rule: qdrant_points.induct)
  case (1 X i st)
  then show ?case by simp
next
  case (2 X i e document md doc_id rest st)
  from "2.prems" have ok: "int_ok doc_id" and rest: "\<forall>z\<in>set rest. int_ok (snd (snd (snd z)))"
    by simp_all
  from qdrant_point_id_total [OF "2.prems"(1) ok, of st]
  obtain pid sta where a: "qdrant_point_id X doc_id st = (Inr pid, sta)" by blast
  from "2.IH" [OF a [symmetric] refl "2.prems"(1) rest]
  obtain ps stb where "qdrant_points X (Suc i) rest sta = (Inr ps, stb)" by blast
  with a show ?case by simp
qed

lemma uuid4_total_ref: "uuid4_total ref_services"
  by (simp add: uuid4_total_def)

text \<open>
  A call with two embeddings and one text, metadata and ID fails in no adapter of the
  reference world: the Qdrant and the Weaviate adapter store the one record the shortest
  list allows and return, and the ChromaDB adapter hands the four lists of different
  lengths to the library as they are.
\<close>

theorem add_documents_mismatch_counterexample:
  "fst (add_documents ref_services (QdrantVectorDB ''c'')
          [[PInt 1], [PInt 2]] [''t''] [[]] [''7''] ref_start) = Inr () \<and>
   map written_ids (calls (snd (add_documents ref_services (QdrantVectorDB ''c'')
          [[PInt 1], [PInt 2]] [''t''] [[]] [''7''] ref_start))) = [[IntId 7]] \<and>
   fst (add_documents ref_services (WeaviateVectorDB ''c'')
          [[PInt 1], [PInt 2]] [''t''] [[]] [''7''] ref_start) = Inr () \<and>
   map written_ids (calls (snd (add_documents ref_services (WeaviateVectorDB ''c'')
          [[PInt 1], [PInt 2]] [''t''] [[]] [''7''] ref_start))) = [[StrId ''7'']] \<and>
   calls (snd (add_documents ref_services (ChromaDBVectorDB ''c'')
          [[PInt 1], [PInt 2]] [''t''] [[]] [''7''] ref_start)) =
     [ChromaAdd ''c'' [[PInt 1], [PInt 2]] [''t''] [[]] [''7'']]"
  by code_simp

text \<open>
  Claim C3, as the code has it: no adapter compares the lengths of the four lists. The
  ChromaDB adapter passes them unchanged to \<^verbatim>\<open>collection.add\<close>, whose answer is the
  adapter's. The Weaviate and the Qdrant adapter pair the lists with \<^verbatim>\<open>zip\<close>: they build one
  record for each position up to the length of the shortest list, the \<open>j\<close>-th from the
  \<open>j\<close>-th entries, drop the rest without a word and hand these records to the backend.
  For Qdrant this holds when the point ID of each of these positions can be built: \<^verbatim>\<open>uuid4\<close>
  returns and \<^verbatim>\<open>int\<close> does not raise on an ID of which \<^verbatim>\<open>isdigit\<close> holds.
\<close>

theorem add_documents_pairs_by_position:
  "add_documents X (ChromaDBVectorDB name) es ds ms is st =
     ask X as_none (ChromaAdd name es ds ms is) st \<and>
   (\<exists>items.
      add_documents X (WeaviateVectorDB name) es ds ms is st =
        ask X as_none (WeaviateBatchAdd name items) st \<and>
      length items = min (length es) (min (length ds) (min (length ms) (length is))) \<and>
      (\<forall>j<length items. items ! j = (is ! j, native_metadata j (ds ! j) (ms ! j), es ! j))) \<and>
   (uuid4_total X \<and> (\<forall>z\<in>set (zip4 es ds ms is). int_ok (snd (snd (snd z)))) \<longrightarrow>
      (\<exists>pts st1.
         qdrant_points X 0 (zip es (zip ds (zip ms is))) st = (Inr pts, st1) \<and>
         add_documents X (QdrantVectorDB name) es ds ms is st =
           ask X as_none (QdrantUpsert name pts) st1 \<and>
         length pts = min (length es) (min (length ds) (min (length ms) (length is))) \<and>
         (\<forall>j<length pts. vector (pts ! j) = es ! j \<and>
            payload (pts ! j) = native_metadata j (ds ! j) (ms ! j))))"
proof (intro conjI impI)
  show "add_documents X (ChromaDBVectorDB name) es ds ms is st =
       ask X as_none (ChromaAdd name es ds ms is) st"
    by (simp add: chroma_add_documents_def)
next
  let ?items = "weaviate_batch_data 0 (zip4 es ds ms is)"
  have 1: "add_documents X (WeaviateVectorDB name) es ds ms is st =
          ask X as_none (WeaviateBatchAdd name ?items) st"
    by (simp add: weaviate_add_documents_def zip4_def)
  have 2: "length ?items = min (length es) (min (length ds) (min (length ms) (length is)))"
    by (simp add: length_weaviate_batch_data length_zip4)
  have 3: "\<forall>j<length ?items. ?items ! j = (is ! j, native_metadata j (ds ! j) (ms ! j), es ! j)"
    by (simp add: length_weaviate_batch_data nth_weaviate_batch_data nth_zip4)
  from 1 2 3 show "\<exists>items.
        add_documents X (WeaviateVectorDB name) es ds ms is st =
          ask X as_none (WeaviateBatchAdd name items) st \<and>
        length items = min (length es) (min (length ds) (min (length ms) (length is))) \<and>
        (\<forall>j<length items. items ! j = (is ! j, native_metadata j (ds ! j) (ms ! j), es ! j))"
    by blast
next
  assume h: "uuid4_total X \<and> (\<forall>z\<in>set (zip4 es ds ms is). int_ok (snd (snd (snd z))))"
  from qdrant_points_total [of X "zip4 es ds ms is" 0 st] h
  obtain pts st1 where a: "qdrant_points X 0 (zip4 es ds ms is) st = (Inr pts, st1)" by blast
  from qdrant_points_shape [OF a]
  have b: "length pts = length (zip4 es ds ms is)"
    and c: "\<forall>j<length (zip4 es ds ms is). vector (pts ! j) = fst (zip4 es ds ms is ! j) \<and>
      payload (pts ! j) = native_metadata (0 + j) (fst (snd (zip4 es ds ms is ! j))) (fst (snd (snd (zip4 es ds ms is ! j))))"
    by simp_all
  have 1: "qdrant_points X 0 (zip es (zip ds (zip ms is))) st = (Inr pts, st1)"
    using a by (simp add: zip4_def)
  have 2: "add_documents X (QdrantVectorDB name) es ds ms is st =
          ask X as_none (QdrantUpsert name pts) st1"
    using 1 by (simp add: qdrant_add_documents_def)
  have 3: "length pts = min (length es) (min (length ds) (min (length ms) (length is)))"
    using b by (simp add: length_zip4)
  have 4: "\<forall>j<length pts. vector (pts ! j) = es ! j \<and>
           payload (pts ! j) = native_metadata j (ds ! j) (ms ! j)"
    using b c by (simp add: nth_zip4)
  from 1 2 3 4 show "\<exists>pts st1.
        qdrant_points X 0 (zip es (zip ds (zip ms is))) st = (Inr pts, st1) \<and>
        add_documents X (QdrantVectorDB name) es ds ms is st =
          ask X as_none (QdrantUpsert name pts) st1 \<and>
        length pts = min (length es) (min (length ds) (min (length ms) (length is))) \<and>
        (\<forall>j<length pts. vector (pts ! j) = es ! j \<and>
           payload (pts ! j) = native_metadata j (ds ! j) (ms ! j))"
    by blast
qed

theorem add_documents_pairs_by_position_witness:
  "(\<exists>pts st1.
      add_documents ref_services (QdrantVectorDB ''c'')
        [[PInt 1], [PInt 2]] [''t''] [[]] [''7'', ''a''] ref_start =
        ask ref_services as_none (QdrantUpsert ''c'' pts) st1 \<and>
      length pts = 1 \<and> vector (pts ! 0) = [PInt 1]) \<and>
   fst (add_documents ref_services (QdrantVectorDB ''c'')
          [[PInt 1]] [''t''] [[]] [[CHR 0xB2]] ref_start) =
     Inl (ValueError ''invalid literal for int() with base 10'')"
proof -
  have z: "zip4 [[PInt 1], [PInt 2]] [''t''] [[]] [''7'', ''a''] = [([PInt 1], ''t'', [], ''7'')]"
    by (simp add: zip4_def)
  have k: "int_ok ''7''" by code_simp
  have h: "uuid4_total ref_services \<and>
      (\<forall>z\<in>set (zip4 [[PInt 1], [PInt 2]] [''t''] [[]] [''7'', ''a'']). int_ok (snd (snd (snd z))))"
    unfolding z using uuid4_total_ref k by simp
  from add_documents_pairs_by_position [of ref_services "''c''" "[[PInt 1], [PInt 2]]" "[''t'']" "[[]]"
      "[''7'', ''a'']" ref_start, THEN conjunct2, THEN conjunct2, rule_format, OF h]
  obtain pts st1 where
    a: "add_documents ref_services (QdrantVectorDB ''c'')
       [[PInt 1], [PInt 2]] [''t''] [[]] [''7'', ''a''] ref_start =
       ask ref_services as_none (QdrantUpsert ''c'' pts) st1"
    and b: "length pts = min (length [[PInt 1], [PInt 2]]) (min (length [''t''])
              (min (length [[]::pydict]) (length [''7'', ''a''])))"
    and c: "\<forall>j<length pts. vector (pts ! j) = [[PInt 1], [PInt 2]] ! j \<and>
           payload (pts ! j) = native_metadata j ([''t''] ! j) ([[]] ! j)"
    by blast
  from b have b': "length pts = 1" by simp
  with c have "vector (pts ! 0) = [PInt 1]" by simp
  with a b' have 1: "\<exists>pts st1.
      add_documents ref_services (QdrantVectorDB ''c'')
        [[PInt 1], [PInt 2]] [''t''] [[]] [''7'', ''a''] ref_start =
        ask ref_services as_none (QdrantUpsert ''c'' pts) st1 \<and>
      length pts = 1 \<and> vector (pts ! 0) = [PInt 1]" by blast
  have 2: "fst (add_documents ref_services (QdrantVectorDB ''c'')
          [[PInt 1]] [''t''] [[]] [[CHR 0xB2]] ref_start) =
     Inl (ValueError ''invalid literal for int() with base 10'')"
    by code_simp
  from 1 2 show ?thesis by blast
qed

subsection \<open>The ID a record is stored under\<close>

text \<open>
  Claim C1 at its failing input: the document \<^verbatim>\<open>a.txt\<close> with the two chunks "x" and "y" is
  ingested twice in a row. The pipeline names the chunks \<^verbatim>\<open>a.txt_chunk_0\<close> and
  \<^verbatim>\<open>a.txt_chunk_1\<close> both times, and the ChromaDB and the Weaviate adapter write them under
  these IDs both times; the Qdrant adapter writes them under two \<^verbatim>\<open>uuid4\<close> values the first
  time and under two other ones the second time.
\<close>

theorem qdrant_reingest_fresh_ids:
  "concat (map written_ids (calls (ingest_once (QdrantVectorDB ''c'')))) =
     [StrId ''uuid-0'', StrId ''uuid-1''] \<and>
   concat (map written_ids (calls (ingest_twice (QdrantVectorDB ''c'')))) =
     [StrId ''uuid-0'', StrId ''uuid-1'', StrId ''uuid-2'', StrId ''uuid-3''] \<and>
   concat (map written_ids (calls (ingest_twice (ChromaDBVectorDB ''c'')))) =
     [StrId ''a.txt_chunk_0'', StrId ''a.txt_chunk_1'',
      StrId ''a.txt_chunk_0'', StrId ''a.txt_chunk_1''] \<and>
   concat (map written_ids (calls (ingest_twice (WeaviateVectorDB ''c'')))) =
     [StrId ''a.txt_chunk_0'', StrId ''a.txt_chunk_1'',
      StrId ''a.txt_chunk_0'', StrId ''a.txt_chunk_1'']"
  by code_simp

text \<open>
  Claim C2 at the same input, in a world whose writes insert or replace by ID: after the
  second ingestion the collection holds two records behind the ChromaDB and the Weaviate
  adapter, and four behind the Qdrant adapter, where it held two after the first.
\<close>

theorem qdrant_reingest_count_grows:
  "ci_count (fst (get_collection_info ref_services (QdrantVectorDB ''c'')
      (ingest_once (QdrantVectorDB ''c'')))) = 2 \<and>
   ci_count (fst (get_collection_info ref_services (QdrantVectorDB ''c'')
      (ingest_twice (QdrantVectorDB ''c'')))) = 4 \<and>
   ci_count (fst (get_collection_info ref_services (ChromaDBVectorDB ''c'')
      (ingest_twice (ChromaDBVectorDB ''c'')))) = 2 \<and>
   ci_count (fst (get_collection_info ref_services (WeaviateVectorDB ''c'')
      (ingest_twice (WeaviateVectorDB ''c'')))) = 2"
  by code_simp

section \<open>Properties of the pipeline\<close>

subsection \<open>The calls a run makes\<close>

lemma ask_calls: "ask X rd c st = (r, st') \<Longrightarrow> calls st' = calls st @ [c]"
  by (auto simp: ask_def invoke_def split: prod.splits)

lemma qdrant_point_id_calls:
  "qdrant_point_id X doc_id st = (r, st') \<Longrightarrow>
   \<exists>tr. calls st' = calls st @ tr \<and> n_split tr = 0 \<and> n_embed tr = 0 \<and> n_write tr = 0"
proof (cases "doc_id \<noteq> [] \<and> isdigit doc_id")
  case True
  assume "qdrant_point_id X doc_id st = (r, st')"
  with True have "st' = st"
    by (cases "py_int_digits doc_id") (simp_all add: qdrant_point_id_def)
  then show ?thesis by (simp add: n_split_def n_embed_def n_write_def)
next
  case False
  assume a: "qdrant_point_id X doc_id st = (r, st')"
  obtain r1 st1 where b: "ask X as_string Uuid4 st = (r1, st1)" by (cases "ask X as_string Uuid4 st")
  with a False have "st' = st1" by (auto simp: qdrant_point_id_def split: sum.splits)
  with ask_calls [OF b] have "calls st' = calls st @ [Uuid4]" by simp
  then show ?thesis by (simp add: n_split_def n_embed_def n_write_def)
qed

lemma qdrant_points_calls:
  "qdrant_points X i zs st = (r, st') \<Longrightarrow>
   \<exists>tr. calls st' = calls st @ tr \<and> n_split tr = 0 \<and> n_embed tr = 0 \<and> n_write tr = 0"
proof (induction X i zs st arbitrary: r st' rule: qdrant_points.induct)
  case (1 X i st)
  then show ?case by (simp add: n_split_def n_embed_def n_write_def)
next
  case (2 X i e document md doc_id rest st)
  obtain r1 st1 where a: "qdrant_point_id X doc_id st = (r1, st1)"
    by (cases "qdrant_point_id X doc_id st")
  from qdrant_point_id_calls [OF a] obtain tr1 where
    t1: "calls st1 = calls st @ tr1" "n_split tr1 = 0" "n_embed tr1 = 0" "n_write tr1 = 0" by blast
  show ?case
  proof (cases r1)
    case (Inl err)
    with a "2.prems" have "st' = st1" by simp
    with t1 show ?thesis by blast
  next
    case (Inr pid)
    obtain r2 st2 where b: "qdrant_points X (Suc i) rest st1 = (r2, st2)"
      by (cases "qdrant_points X (Suc i) rest st1")
    from "2.IH" [OF a [symmetric] Inr b] obtain tr2 where
      t2: "calls st2 = calls st1 @ tr2" "n_split tr2 = 0" "n_embed tr2 = 0" "n_write tr2 = 0" by blast
    from a Inr b "2.prems" have "st' = st2" by (auto split: sum.splits)
    with t1 t2 have "calls st' = calls st @ (tr1 @ tr2)" "n_split (tr1 @ tr2) = 0"
      "n_embed (tr1 @ tr2) = 0" "n_write (tr1 @ tr2) = 0"
      by (simp_all add: n_split_def n_embed_def n_write_def)
    then show ?thesis by blast
  qed
qed

lemma add_documents_calls:
  "add_documents X v es ds ms is st = (r, st') \<Longrightarrow>
   \<exists>tr. calls st' = calls st @ tr \<and> n_split tr = 0 \<and> n_embed tr = 0 \<and>
     (r \<noteq> Inl bad_reply \<longrightarrow> (\<forall>u. r = Inr u \<longrightarrow> n_write tr = 1))"
proof (cases v)
  case (ChromaDBVectorDB name)
  assume "add_documents X v es ds ms is st = (r, st')"
  with ChromaDBVectorDB have "ask X as_none (ChromaAdd name es ds ms is) st = (r, st')"
    by (simp add: chroma_add_documents_def)
  from ask_calls [OF this] have "calls st' = calls st @ [ChromaAdd name es ds ms is]" .
  then show ?thesis by (simp add: n_split_def n_embed_def n_write_def)
next
  case (WeaviateVectorDB cls)
  assume "add_documents X v es ds ms is st = (r, st')"
  with WeaviateVectorDB have "ask X as_none
       (WeaviateBatchAdd cls (weaviate_batch_data 0 (zip es (zip ds (zip ms is))))) st = (r, st')"
    by (simp add: weaviate_add_documents_def)
  from ask_calls [OF this] have "calls st' = calls st @
     [WeaviateBatchAdd cls (weaviate_batch_data 0 (zip es (zip ds (zip ms is))))]" .
  then show ?thesis by (simp add: n_split_def n_embed_def n_write_def)
next
  case (QdrantVectorDB name)
  assume a: "add_documents X v es ds ms is st = (r, st')"
  obtain r1 st1 where b: "qdrant_points X 0 (zip es (zip ds (zip ms is))) st = (r1, st1)"
    by (cases "qdrant_points X 0 (zip es (zip ds (zip ms is))) st")
  from qdrant_points_calls [OF b] obtain tr1 where
    t1: "calls st1 = calls st @ tr1" "n_split tr1 = 0" "n_embed tr1 = 0" "n_write tr1 = 0" by blast
  show ?thesis
  proof (cases r1)
    case (Inl err)
    with a b QdrantVectorDB have "st' = st1" "r = Inl err" by (simp_all add: qdrant_add_documents_def)
    with t1 show ?thesis by auto
  next
    case (Inr pts)
    with a b QdrantVectorDB have "ask X as_none (QdrantUpsert name pts) st1 = (r, st')"
      by (simp add: qdrant_add_documents_def)
    from ask_calls [OF this] t1 have "calls st' = calls st @ (tr1 @ [QdrantUpsert name pts])" by simp
    moreover from t1 have "n_split (tr1 @ [QdrantUpsert name pts]) = 0"
      "n_embed (tr1 @ [QdrantUpsert name pts]) = 0" "n_write (tr1 @ [QdrantUpsert name pts]) = 1"
      by (simp_all add: n_split_def n_embed_def n_write_def)
    ultimately show ?thesis by blast
  qed
qed

lemma process_chunks_calls:
  "process_chunks X r v md i chunks st = (Inr u, st') \<Longrightarrow>
   \<exists>tr. calls st' = calls st @ tr \<and> n_split tr = 0 \<and> n_embed tr = length chunks \<and>
     n_write tr = length chunks"
proof (induction X r v md i chunks st arbitrary: st' rule: process_chunks.induct)
  case (1 X r v md i st)
  then show ?case by (simp add: n_split_def n_embed_def n_write_def)
next
  case (2 X r v md i chunk rest st)
  obtain r1 st1 where a: "ask X as_vector (EmbedQuery chunk) st = (r1, st1)"
    by (cases "ask X as_vector (EmbedQuery chunk) st")
  from "2.prems" a obtain emb where e: "r1 = Inr emb" by (cases r1) auto
  from "2.prems" a e obtain fname where f: "map_of (chunk_metadata md i chunk) ''filename'' = Some fname"
    by (cases "map_of (chunk_metadata md i chunk) ''filename''") auto
  obtain r2 st2 where b: "add_documents X v [emb] [chunk] [chunk_metadata md i chunk]
                       [chunk_doc_id r fname i] st1 = (r2, st2)"
    by (cases "add_documents X v [emb] [chunk] [chunk_metadata md i chunk] [chunk_doc_id r fname i] st1")
  from "2.prems" a e f b obtain u2 where g: "r2 = Inr u2" by (cases r2) auto
  from "2.prems" a e f b g have c: "process_chunks X r v md (Suc i) rest st2 = (Inr u, st')" by simp
  from "2.IH" [OF a [symmetric] e f b [symmetric] g c] obtain tr3 where
    t3: "calls st' = calls st2 @ tr3" "n_split tr3 = 0" "n_embed tr3 = length rest"
      "n_write tr3 = length rest" by blast
  from add_documents_calls [OF b] g obtain tr2 where
    t2: "calls st2 = calls st1 @ tr2" "n_split tr2 = 0" "n_embed tr2 = 0" "n_write tr2 = 1"
    by auto
  from ask_calls [OF a] have t1: "calls st1 = calls st @ [EmbedQuery chunk]" .
  from t1 t2 t3 have "calls st' = calls st @ ([EmbedQuery chunk] @ tr2 @ tr3)"
    "n_split ([EmbedQuery chunk] @ tr2 @ tr3) = 0"
    "n_embed ([EmbedQuery chunk] @ tr2 @ tr3) = length (chunk # rest)"
    "n_write ([EmbedQuery chunk] @ tr2 @ tr3) = length (chunk # rest)"
    by (simp_all add: n_split_def n_embed_def n_write_def)
  then show ?case by blast
qed

lemma ask_split_pure:
  "pure_split X f docs \<Longrightarrow> d \<in> set docs \<Longrightarrow>
   ask X as_strings (SplitText (content d)) st =
     (Inr (f (content d)), st\<lparr>calls := calls st @ [SplitText (content d)]\<rparr>)"
  by (simp add: pure_split_def ask_def invoke_def)

lemma pure_split_Cons: "pure_split X f (d # docs) \<Longrightarrow> pure_split X f docs"
  by (simp add: pure_split_def)

lemma ingest_loop_calls:
  "pure_split X f docs \<Longrightarrow> ingest_loop X r v docs st = (Inr u, st') \<Longrightarrow>
   \<exists>tr. calls st' = calls st @ tr \<and> n_split tr = length docs \<and>
     n_embed tr = total_chunks_of f docs \<and> n_write tr = total_chunks_of f docs"
proof (induction docs arbitrary: st)
  case Nil
  then show ?case by (simp add: n_split_def n_embed_def n_write_def total_chunks_of_def)
next
  case (Cons doc rest)
  let ?st1 = "st\<lparr>calls := calls st @ [SplitText (content doc)]\<rparr>"
  have a: "ask X as_strings (SplitText (content doc)) st = (Inr (f (content doc)), ?st1)"
    using Cons.prems(1) by (rule ask_split_pure) simp
  obtain r2 st2 where b: "process_chunks X r v (metadata doc) 0 (f (content doc)) ?st1 = (r2, st2)"
    by (cases "process_chunks X r v (metadata doc) 0 (f (content doc)) ?st1")
  from Cons.prems(2) a b obtain u2 where g: "r2 = Inr u2" by (cases r2) auto
  from Cons.prems(2) a b g have c: "ingest_loop X r v rest st2 = (Inr u, st')" by simp
  from Cons.IH [OF pure_split_Cons [OF Cons.prems(1)] c] obtain tr3 where
    t3: "calls st' = calls st2 @ tr3" "n_split tr3 = length rest"
      "n_embed tr3 = total_chunks_of f rest" "n_write tr3 = total_chunks_of f rest" by blast
  from process_chunks_calls [OF b [unfolded g]] obtain tr2 where
    t2: "calls st2 = calls ?st1 @ tr2" "n_split tr2 = 0" "n_embed tr2 = length (f (content doc))"
      "n_write tr2 = length (f (content doc))" by blast
  from t2 t3 have "calls st' = calls st @ ([SplitText (content doc)] @ tr2 @ tr3)"
    "n_split ([SplitText (content doc)] @ tr2 @ tr3) = length (doc # rest)"
    "n_embed ([SplitText (content doc)] @ tr2 @ tr3) = total_chunks_of f (doc # rest)"
    "n_write ([SplitText (content doc)] @ tr2 @ tr3) = total_chunks_of f (doc # rest)"
    by (simp_all add: n_split_def n_embed_def n_write_def total_chunks_of_def)
  then show ?case by blast
qed

lemma count_chunks_pure:
  "pure_split X f docs \<Longrightarrow>
   \<exists>st' tr. count_chunks X docs st = (Inr (total_chunks_of f docs), st') \<and>
     calls st' = calls st @ tr \<and> n_split tr = length docs \<and> n_embed tr = 0 \<and> n_write tr = 0"
proof (induction docs arbitrary: st)
  case Nil
  then show ?case by (simp add: n_split_def n_embed_def n_write_def total_chunks_of_def)
next
  case (Cons doc rest)
  let ?st1 = "st\<lparr>calls := calls st @ [SplitText (content doc)]\<rparr>"
  have a: "ask X as_strings (SplitText (content doc)) st = (Inr (f (content doc)), ?st1)"
    using Cons.prems by (rule ask_split_pure) simp
  from Cons.IH [OF pure_split_Cons [OF Cons.prems], of ?st1] obtain st' tr where
    t: "count_chunks X rest ?st1 = (Inr (total_chunks_of f rest), st')"
      "calls st' = calls ?st1 @ tr" "n_split tr = length rest" "n_embed tr = 0" "n_write tr = 0"
    by blast
  from a t have "count_chunks X (doc # rest) st = (Inr (total_chunks_of f (doc # rest)), st')"
    "calls st' = calls st @ ([SplitText (content doc)] @ tr)"
    "n_split ([SplitText (content doc)] @ tr) = length (doc # rest)"
    "n_embed ([SplitText (content doc)] @ tr) = 0" "n_write ([SplitText (content doc)] @ tr) = 0"
    by (simp_all add: n_split_def n_embed_def n_write_def total_chunks_of_def)
  then show ?case by blast
qed

lemma ingest_loop_calls_any:
  "ingest_loop X r v docs st = (Inr u, st') \<Longrightarrow>
   \<exists>tr. calls st' = calls st @ tr \<and> n_split tr = length docs \<and> n_write tr = n_embed tr"
proof (induction docs arbitrary: st)
  case Nil
  then show ?case by (simp add: n_split_def n_embed_def n_write_def)
next
  case (Cons doc rest)
  obtain r1 st1 where a: "ask X as_strings (SplitText (content doc)) st = (r1, st1)"
    by (cases "ask X as_strings (SplitText (content doc)) st")
  from Cons.prems a obtain chunks where k: "r1 = Inr chunks" by (cases r1) auto
  obtain r2 st2 where b: "process_chunks X r v (metadata doc) 0 chunks st1 = (r2, st2)"
    by (cases "process_chunks X r v (metadata doc) 0 chunks st1")
  from Cons.prems a k b obtain u2 where g: "r2 = Inr u2" by (cases r2) auto
  from Cons.prems a k b g have c: "ingest_loop X r v rest st2 = (Inr u, st')" by simp
  from Cons.IH [OF c] obtain tr3 where
    t3: "calls st' = calls st2 @ tr3" "n_split tr3 = length rest" "n_write tr3 = n_embed tr3"
    by blast
  from process_chunks_calls [OF b [unfolded g]] obtain tr2 where
    t2: "calls st2 = calls st1 @ tr2" "n_split tr2 = 0" "n_embed tr2 = length chunks"
      "n_write tr2 = length chunks" by blast
  from ask_calls [OF a] have t1: "calls st1 = calls st @ [SplitText (content doc)]" .
  from t1 t2 t3 have "calls st' = calls st @ ([SplitText (content doc)] @ tr2 @ tr3)"
    "n_split ([SplitText (content doc)] @ tr2 @ tr3) = length (doc # rest)"
    "n_write ([SplitText (content doc)] @ tr2 @ tr3) = n_embed ([SplitText (content doc)] @ tr2 @ tr3)"
    by (simp_all add: n_split_def n_embed_def n_write_def)
  then show ?case by blast
qed

lemma count_chunks_calls:
  "count_chunks X docs st = (Inr k, st') \<Longrightarrow>
   \<exists>tr. calls st' = calls st @ tr \<and> n_split tr = length docs \<and> n_embed tr = 0 \<and>
     n_write tr = 0"
proof (induction docs arbitrary: st k st')
  case Nil
  then show ?case by (simp add: n_split_def n_embed_def n_write_def)
next
  case (Cons doc rest)
  obtain r1 st1 where a: "ask X as_strings (SplitText (content doc)) st = (r1, st1)"
    by (cases "ask X as_strings (SplitText (content doc)) st")
  from Cons.prems a obtain chunks where c: "r1 = Inr chunks" by (cases r1) auto
  obtain r2 st2 where b: "count_chunks X rest st1 = (r2, st2)"
    by (cases "count_chunks X rest st1")
  from Cons.prems a c b obtain k2 where g: "r2 = Inr k2" by (cases r2) auto
  from Cons.prems a c b g have s: "st' = st2" by simp
  from Cons.IH [OF b [unfolded g]] obtain tr where
    t: "calls st2 = calls st1 @ tr" "n_split tr = length rest" "n_embed tr = 0" "n_write tr = 0"
    by blast
  from ask_calls [OF a] have t1: "calls st1 = calls st @ [SplitText (content doc)]" .
  from t1 t s have "calls st' = calls st @ ([SplitText (content doc)] @ tr)"
    "n_split ([SplitText (content doc)] @ tr) = length (doc # rest)"
    "n_embed ([SplitText (content doc)] @ tr) = 0" "n_write ([SplitText (content doc)] @ tr) = 0"
    by (simp_all add: n_split_def n_embed_def n_write_def)
  then show ?case by blast
qed

subsection \<open>The total a directory ingestion reports\<close>

text \<open>
  The directory of the small file system loads to three documents with four chunks.
  Its ingestion calls \<^verbatim>\<open>split_text\<close> six times, twice for every document: the reported
  total comes from a second pass. With a splitter whose configuration changes after the
  third call, four chunks are embedded and written and the reported total is 0.
\<close>

theorem ingest_directory_resplit_counterexample:
  "fst (ingest_directory ref_services demo_env (ref_pipeline (ChromaDBVectorDB ''c''))
          ''d'' ref_start) = Inr (4, 3) \<and>
   n_split (calls (snd (ingest_directory ref_services demo_env
          (ref_pipeline (ChromaDBVectorDB ''c'')) ''d'' ref_start))) = 6 \<and>
   fst (ingest_directory drifting_services demo_env (ref_pipeline (ChromaDBVectorDB ''c''))
          ''d'' (drift_start 3)) = Inr (0, 3) \<and>
   n_write (calls (snd (ingest_directory drifting_services demo_env
          (ref_pipeline (ChromaDBVectorDB ''c'')) ''d'' (drift_start 3)))) = 4"
  by code_simp

text \<open>
  Claim C4, as the code has it: a directory ingestion that completes runs the loop that
  splits every loaded document, embeds every chunk and writes it with one
  \<^verbatim>\<open>add_documents\<close> call, and only then splits every document a second time, with no
  embedding and no write in between, to compute the total it reports: this total is
  what the second pass counts. When the splitter is a function of the text (on the loaded
  documents), the total is the sum over the documents of the number of chunks of each,
  which is the number of chunks the loop embedded and the number of write calls it made.
  The collection can end up with fewer records: in the run below the total is 4 and the
  collection holds 3, since both elements of the JSON file are written under
  \<^verbatim>\<open>c.json_chunk_0\<close>.
\<close>

theorem ingest_directory_total:
  assumes "load_directory env dir = Inr (docs, errlog)"
    and "ingest_directory X env p dir st = (Inr (tot, n), st')"
  shows
    "n = length docs \<and>
     (\<exists>st1 tr1 tr2.
        ingest_loop X (repr env) (p_vector_db p) docs st = (Inr (), st1) \<and>
        count_chunks X docs st1 = (Inr tot, st') \<and>
        calls st1 = calls st @ tr1 \<and> calls st' = calls st1 @ tr2 \<and>
        n_split tr1 = length docs \<and> n_write tr1 = n_embed tr1 \<and>
        n_split tr2 = length docs \<and> n_embed tr2 = 0 \<and> n_write tr2 = 0 \<and>
        (\<forall>f. pure_split X f docs \<longrightarrow>
           tot = total_chunks_of f docs \<and> n_embed tr1 = tot \<and> n_write tr1 = tot))"
proof -
  obtain r1 st1 where a: "ingest_loop X (repr env) (p_vector_db p) docs st = (r1, st1)"
    by (cases "ingest_loop X (repr env) (p_vector_db p) docs st")
  from assms a have g: "r1 = Inr ()"
    by (cases r1) (auto simp: ingest_directory_def)
  obtain r2 st2 where b: "count_chunks X docs st1 = (r2, st2)"
    by (cases "count_chunks X docs st1")
  from assms a g b have r: "r2 = Inr tot" "n = length docs" "st2 = st'"
    by (cases r2; simp add: ingest_directory_def)+
  note a' = a [unfolded g] and b' = b [unfolded r]
  from ingest_loop_calls_any [OF a'] obtain tr1 where
    t1: "calls st1 = calls st @ tr1" "n_split tr1 = length docs" "n_write tr1 = n_embed tr1"
    by blast
  from count_chunks_calls [OF b'] obtain tr2 where
    t2: "calls st' = calls st1 @ tr2" "n_split tr2 = length docs" "n_embed tr2 = 0"
      "n_write tr2 = 0" by blast
  have p: "\<forall>f. pure_split X f docs \<longrightarrow>
           tot = total_chunks_of f docs \<and> n_embed tr1 = tot \<and> n_write tr1 = tot"
  proof (intro allI impI)
    fix f assume pf: "pure_split X f docs"
    from count_chunks_pure [OF pf, of st1] b' have 1: "tot = total_chunks_of f docs" by auto
    from ingest_loop_calls [OF pf a'] obtain tr where
      "calls st1 = calls st @ tr" "n_embed tr = total_chunks_of f docs"
      "n_write tr = total_chunks_of f docs" by blast
    with t1(1) have "n_embed tr1 = total_chunks_of f docs" "n_write tr1 = total_chunks_of f docs"
      by simp_all
    with 1 show "tot = total_chunks_of f docs \<and> n_embed tr1 = tot \<and> n_write tr1 = tot"
      by simp
  qed
  from a' b' t1 t2 p r(2) show ?thesis by blast
qed

lemma load_demo_docs:
  "load_directory demo_env ''d'' =
     Inr (demo_docs, [''Error loading d/b.pdf: Error reading PDF file: EOF marker not found''])"
  by code_simp

theorem ingest_directory_total_witness:
  "\<exists>st1 st' tr1 tr2.
     ingest_directory ref_services demo_env (ref_pipeline (ChromaDBVectorDB ''c'')) ''d''
       ref_start = (Inr (4, 3), st') \<and>
     ingest_loop ref_services const_repr (ChromaDBVectorDB ''c'') demo_docs ref_start =
       (Inr (), st1) \<and>
     count_chunks ref_services demo_docs st1 = (Inr 4, st') \<and>
     calls st1 = tr1 \<and> calls st' = tr1 @ tr2 \<and>
     n_split tr1 = 3 \<and> n_embed tr1 = 4 \<and> n_write tr1 = 4 \<and>
     n_split tr2 = 3 \<and> n_embed tr2 = 0 \<and> n_write tr2 = 0 \<and>
     total_chunks_of ref_split demo_docs = 4 \<and>
     ci_count (fst (get_collection_info ref_services (ChromaDBVectorDB ''c'') st')) = 3"
proof -
  let ?p = "ref_pipeline (ChromaDBVectorDB ''c'')"
  let ?run = "ingest_directory ref_services demo_env ?p ''d'' ref_start"
  have p: "pure_split ref_services ref_split demo_docs"
    by (simp add: pure_split_def ref_split_def demo_docs_def)
  have f: "fst ?run = Inr (4, 3)" by code_simp
  then obtain st' where r: "?run = (Inr (4, 3), st')" by (cases ?run) simp
  have e: "calls ref_start = []" "repr demo_env = const_repr"
    "p_vector_db ?p = ChromaDBVectorDB ''c''"
    by (simp_all add: ref_start_def demo_env_def ref_pipeline_def)
  from ingest_directory_total [OF load_demo_docs r] obtain st1 tr1 tr2 where
    t: "ingest_loop ref_services (repr demo_env) (p_vector_db ?p) demo_docs ref_start = (Inr (), st1)"
      "count_chunks ref_services demo_docs st1 = (Inr 4, st')"
      "calls st1 = calls ref_start @ tr1" "calls st' = calls st1 @ tr2"
      "n_split tr1 = length demo_docs" "n_write tr1 = n_embed tr1"
      "n_split tr2 = length demo_docs" "n_embed tr2 = 0" "n_write tr2 = 0"
      "\<forall>f. pure_split ref_services f demo_docs \<longrightarrow>
           4 = total_chunks_of f demo_docs \<and> n_embed tr1 = 4 \<and> n_write tr1 = 4"
    by blast
  from t(10) p have q: "total_chunks_of ref_split demo_docs = 4" "n_embed tr1 = 4" "n_write tr1 = 4"
    by auto
  have l: "length demo_docs = 3" by (simp add: demo_docs_def)
  have "ci_count (fst (get_collection_info ref_services (ChromaDBVectorDB ''c'') (snd ?run))) = 3"
    by code_simp
  with r have c: "ci_count (fst (get_collection_info ref_services (ChromaDBVectorDB ''c'') st')) = 3"
    by simp
  from r t e q l c show ?thesis by auto
qed

subsection \<open>Queries\<close>

lemma ask_reply:
  "ask X rd c st = (r, st') \<Longrightarrow> \<exists>rp w'. X c (world st) = (rp, w') \<and> r = rd rp"
  by (auto simp: ask_def invoke_def split: prod.splits)

lemma as_results_Inr: "as_results rp = Inr x \<Longrightarrow> rp = Inr (RResults x)"
  by (cases rp rule: as_results.cases) simp_all

lemma as_hits_Inr: "as_hits rp = Inr x \<Longrightarrow> rp = Inr (RHits x)"
  by (cases rp rule: as_hits.cases) simp_all

lemma as_items_Inr: "as_items rp = Inr x \<Longrightarrow> rp = Inr (RItems x)"
  by (cases rp rule: as_items.cases) simp_all

lemma honours_chroma:
  "honours_limit X \<Longrightarrow> X (ChromaQuery name qs n) w = (Inr (RResults res), w') \<Longrightarrow>
   documents res = Some (d0 # ds) \<Longrightarrow> length d0 \<le> n"
  unfolding honours_limit_def by blast

lemma honours_qdrant:
  "honours_limit X \<Longrightarrow> X (QdrantSearch name q n) w = (Inr (RHits hs), w') \<Longrightarrow> length hs \<le> n"
  unfolding honours_limit_def by blast

lemma honours_weaviate:
  "honours_limit X \<Longrightarrow> X (WeaviateGet cls q n) w = (Inr (RItems (Some items)), w') \<Longrightarrow>
   length items \<le> n"
  unfolding honours_limit_def by blast

lemma format_results_length:
  "format_results d m ds js = Inr rs \<Longrightarrow> length rs = length js"
  by (induction js arbitrary: rs) (auto split: sum.splits)

lemma weaviate_rows_length:
  "weaviate_rows X items st = (Inr rows, st') \<Longrightarrow> length rows = length items"
proof (induction X items st arbitrary: rows st' rule: weaviate_rows.induct)
  case (1 X st)
  then show ?case by simp
next
  case (2 X item rest st)
  from "2.prems" obtain c where c: "map_of item ''content'' = Some c"
    by (cases "map_of item ''content''") auto
  from "2.prems" c obtain extra where x: "dict_get_default item ''_additional'' (PDict []) = PDict extra"
    by (cases "dict_get_default item ''_additional'' (PDict [])") auto
  obtain r1 st1 where a: "ask X as_string Uuid4 st = (r1, st1)" by (cases "ask X as_string Uuid4 st")
  from "2.prems" c x a obtain u where u: "r1 = Inr u" by (cases r1) auto
  obtain r2 st2 where b: "weaviate_rows X rest st1 = (r2, st2)" by (cases "weaviate_rows X rest st1")
  from "2.prems" c x a u b obtain rows2 where r: "r2 = Inr rows2" by (cases r2) auto
  from "2.prems" c x a u b r have "length rows = Suc (length rows2)" by auto
  moreover from "2.IH" [OF c x a [symmetric] u b [unfolded r]] have "length rows2 = length rest" .
  ultimately show ?case by simp
qed

lemma query_db_limit:
  assumes "honours_limit X" and "query_db X v qs n st = (Inr res, st')"
    and "documents res = Some (d0 # ds)"
  shows "length d0 \<le> n"
proof (cases v)
  case (ChromaDBVectorDB name)
  obtain r1 st1 where a: "ask X as_results (ChromaQuery name qs n) st = (r1, st1)"
    by (cases "ask X as_results (ChromaQuery name qs n) st")
  from assms(2) ChromaDBVectorDB a have r1: "r1 = Inr res"
    by (cases r1) (auto simp: chroma_query_def split: option.splits list.splits)
  from ask_reply [OF a] r1 obtain rp w' where
    "X (ChromaQuery name qs n) (world st) = (rp, w')" "as_results rp = Inr res" by auto
  then have "X (ChromaQuery name qs n) (world st) = (Inr (RResults res), w')"
    by (simp add: as_results_Inr)
  from honours_chroma [OF assms(1) this assms(3)] show ?thesis .
next
  case (WeaviateVectorDB cls)
  from assms(2) WeaviateVectorDB obtain q qs' where q: "qs = q # qs'"
    by (cases qs) (auto simp: weaviate_query_def)
  obtain r1 st1 where a: "ask X as_items (WeaviateGet cls q n) st = (r1, st1)"
    by (cases "ask X as_items (WeaviateGet cls q n) st")
  from assms(2) WeaviateVectorDB q a obtain oi where r1: "r1 = Inr oi"
    by (cases r1) (auto simp: weaviate_query_def)
  show ?thesis
  proof (cases oi)
    case None
    with assms(2,3) WeaviateVectorDB q a r1 show ?thesis
      by (auto simp: weaviate_query_def)
  next
    case (Some items)
    from ask_reply [OF a] r1 Some obtain rp w' where
      "X (WeaviateGet cls q n) (world st) = (rp, w')" "as_items rp = Inr (Some items)" by auto
    then have "X (WeaviateGet cls q n) (world st) = (Inr (RItems (Some items)), w')"
      by (simp add: as_items_Inr)
    from honours_weaviate [OF assms(1) this] have l: "length items \<le> n" .
    obtain r2 st2 where b: "weaviate_rows X items st1 = (r2, st2)"
      by (cases "weaviate_rows X items st1")
    from assms(2) WeaviateVectorDB q a r1 Some b obtain rows where r2: "r2 = Inr rows"
      by (cases r2) (auto simp: weaviate_query_def)
    from weaviate_rows_length [OF b [unfolded r2]] have "length rows = length items" .
    moreover from assms(2,3) WeaviateVectorDB q a r1 Some b r2
    have "length d0 = length rows" by (auto simp: weaviate_query_def)
    ultimately show ?thesis using l by simp
  qed
next
  case (QdrantVectorDB name)
  from assms(2) QdrantVectorDB obtain q qs' where q: "qs = q # qs'"
    by (cases qs) (auto simp: qdrant_query_def)
  obtain r1 st1 where a: "ask X as_hits (QdrantSearch name q n) st = (r1, st1)"
    by (cases "ask X as_hits (QdrantSearch name q n) st")
  from assms(2) QdrantVectorDB q a obtain hs where r1: "r1 = Inr hs"
    by (cases r1) (auto simp: qdrant_query_def)
  from ask_reply [OF a] r1 obtain rp w' where
    "X (QdrantSearch name q n) (world st) = (rp, w')" "as_hits rp = Inr hs" by auto
  then have "X (QdrantSearch name q n) (world st) = (Inr (RHits hs), w')"
    by (simp add: as_hits_Inr)
  from honours_qdrant [OF assms(1) this] have l: "length hs \<le> n" .
  from assms(2,3) QdrantVectorDB q a r1 have "length d0 = length hs"
    by (auto simp: qdrant_query_def)
  with l show ?thesis by simp
qed

lemma retrieve_documents_limit:
  assumes "honours_limit X" and "retrieve_documents X p q st = (Inr docs, st')"
  shows "length docs \<le> opt (max_results (p_config p)) 5"
proof -
  obtain r1 st1 where a: "ask X as_vector (EmbedQuery q) st = (r1, st1)"
    by (cases "ask X as_vector (EmbedQuery q) st")
  from assms(2) a obtain emb where e: "r1 = Inr emb"
    by (cases r1) (auto simp: retrieve_documents_def)
  obtain r2 st2 where b: "query_db X (p_vector_db p) [emb] (opt (max_results (p_config p)) 5) st1 = (r2, st2)"
    by (cases "query_db X (p_vector_db p) [emb] (opt (max_results (p_config p)) 5) st1")
  from assms(2) a e b obtain res where r: "r2 = Inr res"
    by (cases r2) (auto simp: retrieve_documents_def)
  show ?thesis
  proof (cases "\<exists>d0 ds m0 ms. documents res = Some (d0 # ds) \<and> metadatas res = Some (m0 # ms) \<and> distances res \<noteq> Some []")
    case True
    then obtain d0 ds m0 ms where d: "documents res = Some (d0 # ds)"
      "metadatas res = Some (m0 # ms)" "distances res \<noteq> Some []" by blast
    with assms(2) a e b r have "format_results d0 m0 (first_distances res) [0..<length d0] = Inr docs"
      by (simp add: retrieve_documents_def)
    from format_results_length [OF this] have "length docs = length d0" by simp
    with query_db_limit [OF assms(1) b [unfolded r] d(1)] show ?thesis by simp
  next
    case False
    with assms(2) a e b r have "docs = []"
      by (auto simp: retrieve_documents_def split: option.splits list.splits if_splits)
    then show ?thesis by simp
  qed
qed

lemma honours_limit_ref: "honours_limit ref_services"
  by (auto simp: honours_limit_def)

text \<open>
  Claim C8: whenever the retrieval and the generation return, \<^verbatim>\<open>query\<close> returns the
  question, the generated response, the retrieved records and, as the source count, the
  number of these records; and a result that \<^verbatim>\<open>query\<close> returns is of this form, so its
  source count is the length of its list of retrieved records, 0 when nothing was
  retrieved, and at most \<^verbatim>\<open>max_results\<close> (5 when the configuration does not set it)
  when the backend returns no more results than it is asked for.
\<close>

theorem query_reports_retrieved_count:
  "(\<forall>docs st1 resp st2.
      retrieve_documents X p q st = (Inr docs, st1) \<and>
      generate_response X r q docs st1 = (Inr resp, st2) \<longrightarrow>
      query X r p q st =
        (Inr \<lparr>question = q, response = resp, retrieved_documents = docs,
              num_sources = length docs\<rparr>, st2)) \<and>
   (\<forall>res st2. query X r p q st = (Inr res, st2) \<longrightarrow>
      question res = q \<and> num_sources res = length (retrieved_documents res) \<and>
      (retrieved_documents res = [] \<longrightarrow> num_sources res = 0) \<and>
      (\<exists>st1. retrieve_documents X p q st = (Inr (retrieved_documents res), st1) \<and>
         generate_response X r q (retrieved_documents res) st1 = (Inr (response res), st2)) \<and>
      (honours_limit X \<longrightarrow> num_sources res \<le> opt (max_results (p_config p)) 5))"
proof (intro conjI allI impI)
  fix docs st1 resp st2
  assume "retrieve_documents X p q st = (Inr docs, st1) \<and>
      generate_response X r q docs st1 = (Inr resp, st2)"
  then show "query X r p q st =
        (Inr \<lparr>question = q, response = resp, retrieved_documents = docs,
              num_sources = length docs\<rparr>, st2)"
    by (simp add: query_def)
next
  fix res st2
  assume a: "query X r p q st = (Inr res, st2)"
  obtain r1 st1 where b: "retrieve_documents X p q st = (r1, st1)"
    by (cases "retrieve_documents X p q st")
  from a b obtain docs where d: "r1 = Inr docs" by (cases r1) (auto simp: query_def)
  obtain r2 st2' where c: "generate_response X r q docs st1 = (r2, st2')"
    by (cases "generate_response X r q docs st1")
  from a b d c obtain resp where e: "r2 = Inr resp" by (cases r2) (auto simp: query_def)
  from a b d c e have res: "res = \<lparr>question = q, response = resp, retrieved_documents = docs,
              num_sources = length docs\<rparr>" and st: "st2' = st2"
    by (simp_all add: query_def)
  show "question res = q" using res by simp
  show "num_sources res = length (retrieved_documents res)" using res by simp
  show "num_sources res = 0" if "retrieved_documents res = []" using res that by simp
  show "\<exists>st1. retrieve_documents X p q st = (Inr (retrieved_documents res), st1) \<and>
         generate_response X r q (retrieved_documents res) st1 = (Inr (response res), st2)"
    using b d c e res st by auto
  show "num_sources res \<le> opt (max_results (p_config p)) 5" if "honours_limit X"
    using retrieve_documents_limit [OF that b [unfolded d]] res by simp
qed

theorem query_reports_retrieved_count_witness:
  "(\<exists>res st2.
      query ref_services const_repr (ref_pipeline (QdrantVectorDB ''c'')) ''q''
        (ingest_once (QdrantVectorDB ''c'')) = (Inr res, st2) \<and>
      question res = ''q'' \<and> length (retrieved_documents res) = 2 \<and>
      num_sources res = 2 \<and> num_sources res \<le> 5) \<and>
   (\<exists>res st2.
      query ref_services const_repr (ref_pipeline (QdrantVectorDB ''c'')) ''q'' ref_start =
        (Inr res, st2) \<and>
      retrieved_documents res = [] \<and> num_sources res = 0)"
proof -
  let ?p = "ref_pipeline (QdrantVectorDB ''c'')"
  let ?run1 = "query ref_services const_repr ?p ''q'' (ingest_once (QdrantVectorDB ''c''))"
  let ?run0 = "query ref_services const_repr ?p ''q'' ref_start"
  have m: "opt (max_results (p_config ?p)) 5 = 5" by code_simp
  have "map_sum id (\<lambda>res. length (retrieved_documents res)) (fst ?run1) = Inr 2"
    by code_simp
  then obtain res1 st1 where q1: "?run1 = (Inr res1, st1)"
    and l1: "length (retrieved_documents res1) = 2"
    by (cases ?run1; cases "fst ?run1") auto
  have "map_sum id retrieved_documents (fst ?run0) = Inr []"
    by code_simp
  then obtain res0 st0 where q0: "?run0 = (Inr res0, st0)"
    and l0: "retrieved_documents res0 = []"
    by (cases ?run0; cases "fst ?run0") auto
  from query_reports_retrieved_count [of ref_services ?p "''q''" "ingest_once (QdrantVectorDB ''c'')" const_repr,
      THEN conjunct2, rule_format, OF q1] honours_limit_ref l1 m
  have "question res1 = ''q'' \<and> num_sources res1 = 2 \<and> num_sources res1 \<le> 5" by auto
  moreover
  from query_reports_retrieved_count [of ref_services ?p "''q''" ref_start const_repr,
      THEN conjunct2, rule_format, OF q0] l0
  have "num_sources res0 = 0" by auto
  ultimately show ?thesis using q1 l1 q0 l0 by blast
qed

subsection \<open>Construction\<close>

text \<open>
  Without \<^verbatim>\<open>GROQ_API_KEY\<close> in the environment the construction of the pipeline fails,
  whatever the pipeline is meant for; with it, the same construction succeeds.
\<close>

theorem init_without_credential_counterexample:
  "fst (init ref_services (Inr (ref_config ''chromadb'')) [] ref_start) =
     Inl (ValueError ''GROQ_API_KEY environment variable is required'') \<and>
   fst (init ref_services (Inr (ref_config ''chromadb'')) [(''GROQ_API_KEY'', ''k'')] ref_start) =
     Inr \<lparr>p_config = ref_config ''chromadb'', p_vector_db = ChromaDBVectorDB ''documents''\<rparr>"
  by code_simp

text \<open>
  Claim C9, as the code has it: when \<^verbatim>\<open>GROQ_API_KEY\<close> is not set or is empty, \<^verbatim>\<open>__init__\<close>
  returns no pipeline, so neither ingestion nor retrieval can be used; \<^verbatim>\<open>_setup_llm\<close>
  raises ValueError("GROQ_API_KEY environment variable is required") without calling the
  provider, and this is the error of \<^verbatim>\<open>__init__\<close> whenever the configuration, the splitter,
  the embedding model and the vector database were set up before it.
\<close>

theorem init_requires_credential:
  assumes "map_of environ ''GROQ_API_KEY'' = None \<or> map_of environ ''GROQ_API_KEY'' = Some []"
  shows
    "(\<exists>e. fst (init X loaded_config environ st) = Inl e) \<and>
     setup_llm X cfg environ st =
       (Inl (ValueError ''GROQ_API_KEY environment variable is required''), st) \<and>
     (\<forall>st1 st2 st3 v.
        loaded_config = Inr cfg \<and>
        ask X as_none
          (MakeSplitter (opt (chunk_size cfg) 1000) (opt (chunk_overlap cfg) 200)
             (opt (separators cfg) [[CHR 0x0A, CHR 0x0A], [CHR 0x0A], '' '', []])) st = (Inr (), st1) \<and>
        ask X as_none
          (MakeEmbeddings (opt (embeddings_model cfg) ''sentence-transformers/all-MiniLM-L6-v2''))
          st1 = (Inr (), st2) \<and>
        create_vector_db X (vector_db_config cfg) st2 = (Inr v, st3) \<longrightarrow>
        init X loaded_config environ st =
          (Inl (ValueError ''GROQ_API_KEY environment variable is required''), st3))"
proof (intro conjI allI impI)
  have s: "\<And>c s. setup_llm X c environ s =
       (Inl (ValueError ''GROQ_API_KEY environment variable is required''), s)"
    using assms by (auto simp: setup_llm_def)
  show "setup_llm X cfg environ st =
       (Inl (ValueError ''GROQ_API_KEY environment variable is required''), st)"
    by (rule s)
  show "\<exists>e. fst (init X loaded_config environ st) = Inl e"
    by (auto simp: init_def s split: sum.splits prod.splits)
  fix st1 st2 st3 v
  assume "loaded_config = Inr cfg \<and>
        ask X as_none
          (MakeSplitter (opt (chunk_size cfg) 1000) (opt (chunk_overlap cfg) 200)
             (opt (separators cfg) [[CHR 0x0A, CHR 0x0A], [CHR 0x0A], '' '', []])) st = (Inr (), st1) \<and>
        ask X as_none
          (MakeEmbeddings (opt (embeddings_model cfg) ''sentence-transformers/all-MiniLM-L6-v2''))
          st1 = (Inr (), st2) \<and>
        create_vector_db X (vector_db_config cfg) st2 = (Inr v, st3)"
  then show "init X loaded_config environ st =
          (Inl (ValueError ''GROQ_API_KEY environment variable is required''), st3)"
    by (simp add: init_def s)
qed

theorem init_requires_credential_witness:
  "(\<exists>e. fst (init ref_services (Inr (ref_config ''qdrant'')) [] ref_start) = Inl e) \<and>
   setup_llm ref_services (ref_config ''qdrant'') [(''GROQ_API_KEY'', [])] ref_start =
     (Inl (ValueError ''GROQ_API_KEY environment variable is required''), ref_start)"
proof -
  have 1: "map_of ([] :: (string \<times> string) list) ''GROQ_API_KEY'' = None \<or>
           map_of ([] :: (string \<times> string) list) ''GROQ_API_KEY'' = Some []" by simp
  have 2: "map_of [(''GROQ_API_KEY'', [])] ''GROQ_API_KEY'' = None \<or>
           map_of [(''GROQ_API_KEY'', [])] ''GROQ_API_KEY'' = Some ([] :: string)" by simp
  from init_requires_credential [OF 1, of ref_services "Inr (ref_config ''qdrant'')" ref_start]
       init_requires_credential [OF 2, of ref_services _ ref_start "ref_config ''qdrant''"]
  show ?thesis by blast
qed

subsection \<open>Clearing\<close>

lemma get_collection_info_calls:
  "get_collection_info X v st = (info, st1) \<Longrightarrow>
   \<exists>tr. calls st1 = calls st @ tr \<and>
     (\<forall>c\<in>set tr. \<not> is_delete c \<and> \<not> is_create c \<and> \<not> is_write c)"
proof (cases v)
  case (ChromaDBVectorDB name)
  assume a: "get_collection_info X v st = (info, st1)"
  obtain r1 s1 where b: "ask X as_count (ChromaCount name) st = (r1, s1)"
    by (cases "ask X as_count (ChromaCount name) st")
  from a b ChromaDBVectorDB have "st1 = s1"
    by (cases r1) (simp_all add: chroma_get_collection_info_def)
  with ask_calls [OF b] have "calls st1 = calls st @ [ChromaCount name]" by simp
  then show ?thesis by simp
next
  case (WeaviateVectorDB cls)
  assume a: "get_collection_info X v st = (info, st1)"
  obtain r1 s1 where b: "ask X as_none (WeaviateSchemaGet cls) st = (r1, s1)"
    by (cases "ask X as_none (WeaviateSchemaGet cls) st")
  obtain r2 s2 where c: "ask X as_aggregate (WeaviateAggregate cls) s1 = (r2, s2)"
    by (cases "ask X as_aggregate (WeaviateAggregate cls) s1")
  from a b c WeaviateVectorDB have "st1 = s1 \<or> st1 = s2"
    by (cases r1; cases r2) (simp_all add: weaviate_get_collection_info_def Let_def)
  with ask_calls [OF b] ask_calls [OF c]
  have "calls st1 = calls st @ [WeaviateSchemaGet cls] \<or>
        calls st1 = calls st @ [WeaviateSchemaGet cls, WeaviateAggregate cls]" by auto
  then show ?thesis by auto
next
  case (QdrantVectorDB name)
  assume a: "get_collection_info X v st = (info, st1)"
  obtain r1 s1 where b: "ask X as_collection (QdrantGetCollection name) st = (r1, s1)"
    by (cases "ask X as_collection (QdrantGetCollection name) st")
  obtain r2 s2 where c: "ask X as_count (QdrantCount name) s1 = (r2, s2)"
    by (cases "ask X as_count (QdrantCount name) s1")
  from a b c QdrantVectorDB have "st1 = s1 \<or> st1 = s2"
    by (cases r1; cases r2) (auto simp: qdrant_get_collection_info_def Let_def)
  with ask_calls [OF b] ask_calls [OF c]
  have "calls st1 = calls st @ [QdrantGetCollection name] \<or>
        calls st1 = calls st @ [QdrantGetCollection name, QdrantCount name]" by auto
  then show ?thesis by auto
qed

lemma delete_collection_calls:
  "delete_collection X v st = (r, st') \<Longrightarrow> calls st' = calls st @ [delete_call v]"
  by (cases v)
    (auto simp: chroma_delete_collection_def weaviate_delete_collection_def
       qdrant_delete_collection_def dest: ask_calls)

lemma ref_delete_ok: "fst (delete_collection ref_services v s) = Inr ()"
  by (cases v)
    (simp_all add: chroma_delete_collection_def weaviate_delete_collection_def
       qdrant_delete_collection_def ask_def invoke_def)

lemma ref_create_qdrant_ok:
  "fst (create_vector_db ref_services (vector_db_config (ref_config ''qdrant'')) s) =
     Inr (QdrantVectorDB ''documents'')"
proof -
  have "lower ''qdrant'' = ''qdrant''" by code_simp
  then show ?thesis
    by (simp add: create_vector_db_def ref_config_def opt_def qdrant_init_def
        qdrant_create_collection_def ask_def invoke_def Let_def)
qed

text \<open>
  Claim C10: \<^verbatim>\<open>clear_database\<close> first reads the collection count, with calls that neither
  delete, create nor write. When the count is 0 it returns at once: the pipeline and its
  vector-database handle are unchanged and the state is the one the read left. When the
  count is positive it calls the adapter's delete; if that succeeds it builds a new
  handle from the configuration and returns the pipeline with this handle; a failure of
  either is raised again as "Failed to clear database: ...".
\<close>

theorem clear_database_only_when_nonempty:
  assumes "get_collection_info X (p_vector_db p) st = (info, st1)"
  shows
    "(\<exists>tr. calls st1 = calls st @ tr \<and>
        (\<forall>c\<in>set tr. \<not> is_delete c \<and> \<not> is_create c \<and> \<not> is_write c)) \<and>
     (ci_count info = 0 \<longrightarrow> clear_database X p st = (Inr p, st1)) \<and>
     (0 < ci_count info \<longrightarrow>
        (\<exists>r st2.
           delete_collection X (p_vector_db p) st1 = (r, st2) \<and>
           calls st2 = calls st1 @ [delete_call (p_vector_db p)] \<and>
           (\<forall>e. r = Inl e \<longrightarrow> clear_database X p st = (Inl (clear_failed e), st2)) \<and>
           (\<forall>u. r = Inr u \<longrightarrow>
              (\<forall>e st3. create_vector_db X (vector_db_config (p_config p)) st2 = (Inl e, st3) \<longrightarrow>
                 clear_database X p st = (Inl (clear_failed e), st3)) \<and>
              (\<forall>v st3. create_vector_db X (vector_db_config (p_config p)) st2 = (Inr v, st3) \<longrightarrow>
                 clear_database X p st = (Inr (p\<lparr>p_vector_db := v\<rparr>), st3)))))"
proof (intro conjI impI)
  show "\<exists>tr. calls st1 = calls st @ tr \<and>
        (\<forall>c\<in>set tr. \<not> is_delete c \<and> \<not> is_create c \<and> \<not> is_write c)"
    using assms by (rule get_collection_info_calls)
next
  assume "ci_count info = 0"
  with assms show "clear_database X p st = (Inr p, st1)"
    by (simp add: clear_database_def)
next
  assume pos: "0 < ci_count info"
  obtain r st2 where d: "delete_collection X (p_vector_db p) st1 = (r, st2)"
    by (cases "delete_collection X (p_vector_db p) st1")
  have 1: "calls st2 = calls st1 @ [delete_call (p_vector_db p)]"
    using d by (rule delete_collection_calls)
  have 2: "\<forall>e. r = Inl e \<longrightarrow> clear_database X p st = (Inl (clear_failed e), st2)"
    using assms pos d by (simp add: clear_database_def)
  have 3: "\<forall>u. r = Inr u \<longrightarrow>
              (\<forall>e st3. create_vector_db X (vector_db_config (p_config p)) st2 = (Inl e, st3) \<longrightarrow>
                 clear_database X p st = (Inl (clear_failed e), st3)) \<and>
              (\<forall>v st3. create_vector_db X (vector_db_config (p_config p)) st2 = (Inr v, st3) \<longrightarrow>
                 clear_database X p st = (Inr (p\<lparr>p_vector_db := v\<rparr>), st3))"
    using assms pos d by (simp add: clear_database_def)
  from d 1 2 3 show "\<exists>r st2.
           delete_collection X (p_vector_db p) st1 = (r, st2) \<and>
           calls st2 = calls st1 @ [delete_call (p_vector_db p)] \<and>
           (\<forall>e. r = Inl e \<longrightarrow> clear_database X p st = (Inl (clear_failed e), st2)) \<and>
           (\<forall>u. r = Inr u \<longrightarrow>
              (\<forall>e st3. create_vector_db X (vector_db_config (p_config p)) st2 = (Inl e, st3) \<longrightarrow>
                 clear_database X p st = (Inl (clear_failed e), st3)) \<and>
              (\<forall>v st3. create_vector_db X (vector_db_config (p_config p)) st2 = (Inr v, st3) \<longrightarrow>
                 clear_database X p st = (Inr (p\<lparr>p_vector_db := v\<rparr>), st3)))"
    by blast
qed

theorem clear_database_only_when_nonempty_witness:
  "clear_database ref_services (ref_pipeline (QdrantVectorDB ''c'')) ref_start =
     (Inr (ref_pipeline (QdrantVectorDB ''c'')),
      \<lparr>world = world ref_start, calls = [QdrantGetCollection ''c'', QdrantCount ''c'']\<rparr>) \<and>
   fst (clear_database ref_services (ref_pipeline (QdrantVectorDB ''c''))
          (ingest_once (QdrantVectorDB ''c''))) =
     Inr ((ref_pipeline (QdrantVectorDB ''c''))\<lparr>p_vector_db := QdrantVectorDB ''documents''\<rparr>)"
proof -
  let ?p = "ref_pipeline (QdrantVectorDB ''c'')"
  let ?st1 = "\<lparr>world = world ref_start, calls = [QdrantGetCollection ''c'', QdrantCount ''c'']\<rparr>"
  have v: "p_vector_db ?p = QdrantVectorDB ''c''" "p_config ?p = ref_config ''qdrant''"
    by (simp_all add: ref_pipeline_def)
  have g0: "get_collection_info ref_services (p_vector_db ?p) ref_start =
      (\<lparr>ci_name = ''c'', ci_count = 0, ci_provider = ''qdrant'',
        ci_vector_size = Some 384, ci_distance_metric = Some ''cosine''\<rparr>, ?st1)"
    by code_simp
  from clear_database_only_when_nonempty [OF g0]
  have a: "clear_database ref_services ?p ref_start = (Inr ?p, ?st1)" by simp
  let ?st = "ingest_once (QdrantVectorDB ''c'')"
  obtain info st1 where g1: "get_collection_info ref_services (p_vector_db ?p) ?st = (info, st1)"
    by (cases "get_collection_info ref_services (p_vector_db ?p) ?st")
  have "ci_count (fst (get_collection_info ref_services (p_vector_db ?p) ?st)) = 2"
    by code_simp
  with g1 have pos: "0 < ci_count info" by simp
  from clear_database_only_when_nonempty [OF g1] pos obtain r st2 where
    d: "delete_collection ref_services (p_vector_db ?p) st1 = (r, st2)"
    and k: "\<forall>u. r = Inr u \<longrightarrow>
        (\<forall>v st3. create_vector_db ref_services (vector_db_config (p_config ?p)) st2 = (Inr v, st3) \<longrightarrow>
           clear_database ref_services ?p ?st = (Inr (?p\<lparr>p_vector_db := v\<rparr>), st3))"
    by blast
  from d ref_delete_ok [of "p_vector_db ?p" st1] have r: "r = Inr ()" by simp
  obtain rc st3 where c: "create_vector_db ref_services (vector_db_config (p_config ?p)) st2 = (rc, st3)"
    by (cases "create_vector_db ref_services (vector_db_config (p_config ?p)) st2")
  with ref_create_qdrant_ok [of st2] v have rc: "rc = Inr (QdrantVectorDB ''documents'')" by simp
  from k r c rc have "clear_database ref_services ?p ?st =
      (Inr (?p\<lparr>p_vector_db := QdrantVectorDB ''documents''\<rparr>), st3)" by simp
  with a show ?thesis by simp
qed

end
